theory Spec2Isabelle
  imports Main "HOL-Library.Word" "HOL-Library.AList"
begin

unbundle bit_operations_syntax

section \<open>Bytes, machine integers and strings\<close>

text \<open>
  The reader works on byte slices and on Go's fixed-width unsigned integers. Bytes are
  \<open>8 word\<close>, \<open>uint16\<close> is \<open>16 word\<close>, \<open>uint32\<close> is \<open>32 word\<close>: addition,
  subtraction and multiplication wrap as in Go. Go strings are byte strings; they are
  modelled as \<open>string\<close>, and \<open>string_of_bytes\<close> is the conversion \<open>string(b)\<close>.
\<close>

type_synonym byte = "8 word"
type_synonym u16 = "16 word"
type_synonym u32 = "32 word"

definition string_of_bytes :: "byte list \<Rightarrow> string" where
  "string_of_bytes bs = map (\<lambda>b. char_of (unat b)) bs"

text \<open>\<open>binary.BigEndian.Uint16\<close> and \<open>binary.BigEndian.Uint32\<close>, on the bytes of the slice.\<close>

definition be16 :: "byte \<Rightarrow> byte \<Rightarrow> u16" where
  "be16 b0 b1 = (ucast b1 OR push_bit 8 (ucast b0))"

definition be32 :: "byte \<Rightarrow> byte \<Rightarrow> byte \<Rightarrow> byte \<Rightarrow> u32" where
  "be32 b0 b1 b2 b3 =
     (ucast b3 OR push_bit 8 (ucast b2) OR push_bit 16 (ucast b1) OR push_bit 24 (ucast b0))"

section \<open>Constants\<close>

definition dbSig :: string where
  "dbSig = ''SxG''"

definition dbHeaderLen :: nat where
  "dbHeaderLen = 40"

definition dbBlockLenOffset :: nat where
  "dbBlockLenOffset = 3"

section \<open>The header (iso.go, parseHeader)\<close>

record header =
  version :: byte
  timestamp :: u32
  dbType :: byte
  charset :: byte
  byteIndexLen :: byte
  mainIndexLen :: u16
  rangeBlocks :: u16
  dbItems :: u32
  idLen :: byte
  maxRegion :: u16
  maxCity :: u16
  regionSize :: u32
  citySize :: u32
  maxCountry :: u16
  countrySize :: u32
  packSize :: u16

text \<open>
  \<open>parseHeader\<close> returns \<open>(nil, false)\<close> on a short slice, a wrong signature or a zero
  critical field; that is \<open>None\<close> here. The length test comes first, so every index
  below is inside the slice.
\<close>

definition parseHeader :: "byte list \<Rightarrow> header option" where
  "parseHeader data =
     (if length data < dbHeaderLen \<or> string_of_bytes (take 3 data) \<noteq> dbSig then None
      else
        let h = \<lparr> version = data ! 3,
                  timestamp = be32 (data ! 4) (data ! 5) (data ! 6) (data ! 7),
                  dbType = data ! 8,
                  charset = data ! 9,
                  byteIndexLen = data ! 10,
                  mainIndexLen = be16 (data ! 11) (data ! 12),
                  rangeBlocks = be16 (data ! 13) (data ! 14),
                  dbItems = be32 (data ! 15) (data ! 16) (data ! 17) (data ! 18),
                  idLen = data ! 19,
                  maxRegion = be16 (data ! 20) (data ! 21),
                  maxCity = be16 (data ! 22) (data ! 23),
                  regionSize = be32 (data ! 24) (data ! 25) (data ! 26) (data ! 27),
                  citySize = be32 (data ! 28) (data ! 29) (data ! 30) (data ! 31),
                  maxCountry = be16 (data ! 32) (data ! 33),
                  countrySize = be32 (data ! 34) (data ! 35) (data ! 36) (data ! 37),
                  packSize = be16 (data ! 38) (data ! 39) \<rparr>
        in if byteIndexLen h = 0 \<or> mainIndexLen h = 0 \<or> rangeBlocks h = 0 \<or> dbItems h = 0
              \<or> idLen h = 0 \<or> idLen h > 4
           then None else Some h)"

section \<open>Errors\<close>

text \<open>
  One constructor for each place where the code builds an error (the message text and
  the wrapping with \<open>%w\<close> are dropped: a caller that wraps an error passes the same
  constructor on). \<open>Panic\<close> stands for a Go run-time panic (an index or slice bound out
  of range, a division by zero) and \<open>Diverges\<close> for a loop that never ends; neither is
  a returned error, and no caller can swallow them.
\<close>

datatype error =
    ErrEmptyFormat | ErrInvalidFormatPart | ErrUnexpectedEOF | ErrInvalidCLength
  | ErrUnsupportedSpecifier
  | ErrInvalidSeek | ErrNilFile | ErrInternalDataType
  | ErrMissingCityFormat | ErrCityEmpty
  | ErrInvalidIP | ErrReservedRange | ErrRangeZero | ErrEmptyDB | ErrDbDataNil
  | ErrInvalidMemRange | ErrZeroItems | ErrReadZero | ErrEmptyData
  | ErrIDLength | ErrUnsupportedIDLen
  | ErrHeaderRead | ErrInvalidHeader | ErrPackRead | ErrNoPackFormats
  | ErrByteIndexRead | ErrMainIndexRead | ErrDbRead | ErrRegionsRead | ErrCitiesRead
  | Panic | Diverges

section \<open>String helpers of the Go library\<close>

text \<open>\<open>strings.Split(s, sep)\<close> for a one-character separator: never an empty list.\<close>

fun split_on :: "char \<Rightarrow> string \<Rightarrow> string list" where
  "split_on sep [] = [[]]"
| "split_on sep (c # cs) =
     (if c = sep then [] # split_on sep cs
      else (case split_on sep cs of
              [] \<Rightarrow> [[c]]
            | w # ws \<Rightarrow> (c # w) # ws))"

text \<open>\<open>strings.SplitN(s, ":", 2)\<close>: one piece when there is no colon, else two.\<close>

definition splitN2 :: "char \<Rightarrow> string \<Rightarrow> string list" where
  "splitN2 sep s =
     (if sep \<in> set s then [takeWhile (\<lambda>c. c \<noteq> sep) s, tl (dropWhile (\<lambda>c. c \<noteq> sep) s)]
      else [s])"

text \<open>\<open>strings.TrimRight(s, cutset)\<close>.\<close>

definition trimRight :: "string \<Rightarrow> string \<Rightarrow> string" where
  "trimRight s cutset = rev (dropWhile (\<lambda>c. c \<in> set cutset) (rev s))"

definition NUL :: char where
  "NUL = char_of (0::nat)"

text \<open>
  \<open>strconv.Atoi\<close> with a 64-bit \<open>int\<close>: an optional sign, then decimal digits only. The
  result is the value and whether \<open>err\<close> is nil; a syntax error gives 0, a value out
  of range gives the nearest bound.
\<close>

definition is_digit :: "char \<Rightarrow> bool" where
  "is_digit c \<longleftrightarrow> (48::nat) \<le> of_char c \<and> (of_char c :: nat) \<le> 57"

definition digits_value :: "string \<Rightarrow> int" where
  "digits_value ds = foldl (\<lambda>acc c. 10 * acc + (of_char c - 48)) 0 ds"

definition Atoi :: "string \<Rightarrow> int \<times> bool" where
  "Atoi s =
     (let neg = (s \<noteq> [] \<and> hd s = CHR ''-'');
          ds = (if s \<noteq> [] \<and> (hd s = CHR ''-'' \<or> hd s = CHR ''+'') then tl s else s)
      in if ds = [] \<or> \<not> list_all is_digit ds then (0, False)
         else let v = (if neg then - digits_value ds else digits_value ds)
              in if v > 9223372036854775807 then (9223372036854775807, False)
                 else if v < - 9223372036854775808 then (- 9223372036854775808, False)
                 else (v, True))"

section \<open>Unpacked values (unpack.go)\<close>

text \<open>
  IEEE-754 arithmetic is not modelled. A \<open>float64\<close> is kept as the expression that
  produced it: the bits of a 32-bit or 64-bit float, an integer divided by a power of
  ten (\<open>float64(num) / math.Pow10(scale)\<close>), or an integer converted to float.
\<close>

datatype float64 =
    FromBits32 u32
  | FromBits64 "64 word"
  | Scaled int int
  | OfInt int

text \<open>
  The dynamic types that \<open>unpack\<close> stores in its \<open>map[string]interface{}\<close>. Signed
  integers are kept as the word of their width and read with \<open>sint\<close>.
\<close>

datatype val =
    VInt8 byte | VUint8 byte
  | VInt16 u16 | VUint16 u16
  | VInt32 u32 | VUint32 u32
  | VFloat64 float64
  | VString string

text \<open>
  The map is an association list with distinct keys, updated by \<open>AList.update\<close> and
  read by \<open>map_of\<close>; \<open>len(m) == 0\<close> is \<open>m = []\<close>.
\<close>

type_synonym fields = "(string \<times> val) list"

definition le16 :: "byte list \<Rightarrow> u16" where
  "le16 b = (ucast (b ! 0) OR push_bit 8 (ucast (b ! 1)))"

definition le24 :: "byte list \<Rightarrow> u32" where
  "le24 b = (ucast (b ! 0) OR push_bit 8 (ucast (b ! 1)) OR push_bit 16 (ucast (b ! 2)))"

definition le32 :: "byte list \<Rightarrow> u32" where
  "le32 b = (ucast (b ! 0) OR push_bit 8 (ucast (b ! 1)) OR push_bit 16 (ucast (b ! 2))
             OR push_bit 24 (ucast (b ! 3)))"

definition le64 :: "byte list \<Rightarrow> 64 word" where
  "le64 b = (ucast (b ! 0) OR push_bit 8 (ucast (b ! 1)) OR push_bit 16 (ucast (b ! 2))
             OR push_bit 24 (ucast (b ! 3)) OR push_bit 32 (ucast (b ! 4))
             OR push_bit 40 (ucast (b ! 5)) OR push_bit 48 (ucast (b ! 6))
             OR push_bit 56 (ucast (b ! 7)))"

text \<open>\<open>data[lo:hi]\<close> for \<open>lo \<le> hi \<le> len(data)\<close>.\<close>

definition slice :: "'a list \<Rightarrow> nat \<Rightarrow> nat \<Rightarrow> 'a list" where
  "slice xs lo hi = take (hi - lo) (drop lo xs)"

text \<open>
  The body of the \<open>switch typeCode\<close> of \<open>unpack\<close> for one field: the decoded value and
  the number of bytes consumed, or the error set in that arm. \<open>typeFormat\<close> is not
  empty here. A fixed-width arm whose bytes do not all lie in \<open>data\<close> sets
  \<open>io.ErrUnexpectedEOF\<close>. In the \<open>c\<close> arm a length so large that \<open>offset+length\<close>
  overflows \<open>int\<close> becomes negative, passes the test and panics in the slice expression.
\<close>

definition fixed :: "byte list \<Rightarrow> nat \<Rightarrow> nat \<Rightarrow> (byte list \<Rightarrow> val) \<Rightarrow> error + (val \<times> nat)" where
  "fixed data offset len mk =
     (if offset + len > length data then Inl ErrUnexpectedEOF
      else Inr (mk (slice data offset (offset + len)), len))"

definition decode_field :: "string \<Rightarrow> byte list \<Rightarrow> nat \<Rightarrow> error + (val \<times> nat)" where
  "decode_field typeFormat data offset =
     (let typeCode = hd typeFormat;
          typeLenStr = tl typeFormat;
          dataLen = length data
      in if typeCode = CHR ''t'' then fixed data offset 1 (\<lambda>b. VInt8 (b ! 0))
         else if typeCode = CHR ''T'' then fixed data offset 1 (\<lambda>b. VUint8 (b ! 0))
         else if typeCode = CHR ''s'' then fixed data offset 2 (\<lambda>b. VInt16 (le16 b))
         else if typeCode = CHR ''S'' then fixed data offset 2 (\<lambda>b. VUint16 (le16 b))
         else if typeCode = CHR ''m'' then
           fixed data offset 3 (\<lambda>b.
             if (b ! 2) AND 0x80 \<noteq> 0 then VInt32 (le24 b OR 0xFF000000)
             else VInt32 (le24 b))
         else if typeCode = CHR ''M'' then fixed data offset 3 (\<lambda>b. VUint32 (le24 b))
         else if typeCode = CHR ''i'' then fixed data offset 4 (\<lambda>b. VInt32 (le32 b))
         else if typeCode = CHR ''I'' then fixed data offset 4 (\<lambda>b. VUint32 (le32 b))
         else if typeCode = CHR ''f'' then
           fixed data offset 4 (\<lambda>b. VFloat64 (FromBits32 (le32 b)))
         else if typeCode = CHR ''d'' then
           fixed data offset 8 (\<lambda>b. VFloat64 (FromBits64 (le64 b)))
         else if typeCode = CHR ''n'' then
           fixed data offset 2 (\<lambda>b. VFloat64 (Scaled (sint (le16 b)) (fst (Atoi typeLenStr))))
         else if typeCode = CHR ''N'' then
           fixed data offset 4 (\<lambda>b. VFloat64 (Scaled (sint (le32 b)) (fst (Atoi typeLenStr))))
         else if typeCode = CHR ''c'' then
           (case Atoi typeLenStr of (len, ok) \<Rightarrow>
              if \<not> ok \<or> len \<le> 0 then Inl ErrInvalidCLength
              else if int offset + len > 9223372036854775807 then Inl Panic
              else
                let len' = (if offset + nat len > dataLen then dataLen - offset else nat len)
                in Inr (VString (trimRight (string_of_bytes (slice data offset (offset + len')))
                                   [NUL, CHR '' '']), len'))
         else if typeCode = CHR ''b'' then
           (let end = offset + length (takeWhile (\<lambda>b. b \<noteq> 0) (drop offset data))
            in if end \<ge> dataLen
               then Inr (VString (string_of_bytes (drop offset data)), dataLen - offset)
               else Inr (VString (string_of_bytes (slice data offset end)), (end - offset) + 1))
         else Inl ErrUnsupportedSpecifier)"

text \<open>
  The loop over the parts of the format. A part is decoded only while \<open>offset\<close> is
  inside the data; a part without a colon is an error; a part that starts with the
  colon has an empty \<open>typeFormat\<close>, and \<open>typeFormat[0]\<close> panics. The result is the
  pair that Go returns: the map built so far and the error, if any.
\<close>

fun unpack_parts :: "string list \<Rightarrow> byte list \<Rightarrow> nat \<Rightarrow> fields \<Rightarrow> fields \<times> error option" where
  "unpack_parts [] data offset result = (result, None)"
| "unpack_parts (part # parts) data offset result =
     (if offset \<ge> length data then (result, None)
      else
        (case splitN2 CHR '':'' part of
           [typeFormat, name] \<Rightarrow>
             if typeFormat = [] then (result, Some Panic)
             else
               (case decode_field typeFormat data offset of
                  Inl e \<Rightarrow> (result, Some e)
                | Inr (v, len) \<Rightarrow>
                    unpack_parts parts data (offset + len) (AList.update name v result))
         | _ \<Rightarrow> (result, Some ErrInvalidFormatPart)))"

definition unpack :: "string \<Rightarrow> byte list \<Rightarrow> fields \<times> error option" where
  "unpack format data =
     (if length data = 0 then ([], None)
      else if format = [] then ([], Some ErrEmptyFormat)
      else unpack_parts (split_on CHR ''/'' format) data 0 [])"

subsection \<open>The typed getters\<close>

text \<open>
  Whether a \<open>float64\<close> is a whole number, and which, is a question of IEEE-754
  arithmetic. The getters take the answer from \<open>floatInt\<close>: \<open>floatInt v = Some i\<close> when
  \<open>v\<close> is finite, \<open>v == math.Floor(v)\<close> and its value is \<open>i\<close>. \<open>ParseIP4\<close> is
  \<open>net.ParseIP\<close> followed by \<open>To4\<close> and \<open>binary.BigEndian.Uint32\<close> (the function
  \<open>ip2long\<close>): the address as a 32-bit number, or \<open>None\<close> for a string that is not an
  IPv4 address. Both belong to the Go library and are parameters of the model.
\<close>

record golib =
  ParseIP4 :: "string \<Rightarrow> u32 option"
  floatInt :: "float64 \<Rightarrow> int option"

definition getString :: "fields \<Rightarrow> string \<Rightarrow> string" where
  "getString m key = (case map_of m key of Some (VString v) \<Rightarrow> v | _ \<Rightarrow> [])"

definition getUint8 :: "golib \<Rightarrow> fields \<Rightarrow> string \<Rightarrow> byte" where
  "getUint8 lib m key =
     (case map_of m key of
        None \<Rightarrow> 0
      | Some val \<Rightarrow>
          (case val of
             VUint8 v \<Rightarrow> v
           | VInt8 v \<Rightarrow> v
           | VUint16 v \<Rightarrow> if v \<le> 255 then ucast v else 0
           | VUint32 v \<Rightarrow> if v \<le> 255 then ucast v else 0
           | VFloat64 v \<Rightarrow>
               (case floatInt lib v of
                  Some i \<Rightarrow> if 0 \<le> i \<and> i \<le> 255 then word_of_int i else 0
                | None \<Rightarrow> 0)
           | _ \<Rightarrow> 0))"

definition getUint32 :: "golib \<Rightarrow> fields \<Rightarrow> string \<Rightarrow> u32" where
  "getUint32 lib m key =
     (case map_of m key of
        None \<Rightarrow> 0
      | Some val \<Rightarrow>
          (case val of
             VUint32 v \<Rightarrow> v
           | VInt32 v \<Rightarrow> if 0 \<le> sint v then v else 0
           | VUint16 v \<Rightarrow> ucast v
           | VUint8 v \<Rightarrow> ucast v
           | VFloat64 v \<Rightarrow>
               (case floatInt lib v of
                  Some i \<Rightarrow> if 0 \<le> i \<and> i \<le> 4294967295 then word_of_int i else 0
                | None \<Rightarrow> 0)
           | _ \<Rightarrow> 0))"

definition getFloat :: "fields \<Rightarrow> string \<Rightarrow> float64" where
  "getFloat m key =
     (case map_of m key of
        None \<Rightarrow> OfInt 0
      | Some val \<Rightarrow>
          (case val of
             VFloat64 v \<Rightarrow> v
           | VInt8 v \<Rightarrow> OfInt (sint v)
           | VInt16 v \<Rightarrow> OfInt (sint v)
           | VInt32 v \<Rightarrow> OfInt (sint v)
           | VUint8 v \<Rightarrow> OfInt (uint v)
           | VUint16 v \<Rightarrow> OfInt (uint v)
           | VUint32 v \<Rightarrow> OfInt (uint v)
           | VString v \<Rightarrow> OfInt 0))"

section \<open>The ISO table (iso.go)\<close>

definition id2iso :: "string list" where
  "id2iso =
     ['''', ''AP'', ''EU'', ''AD'', ''AE'', ''AF'', ''AG'', ''AI'', ''AL'', ''AM'', ''CW'',
      ''AO'', ''AQ'', ''AR'', ''AS'', ''AT'', ''AU'', ''AW'', ''AZ'', ''BA'', ''BB'',
      ''BD'', ''BE'', ''BF'', ''BG'', ''BH'', ''BI'', ''BJ'', ''BM'', ''BN'', ''BO'',
      ''BR'', ''BS'', ''BT'', ''BV'', ''BW'', ''BY'', ''BZ'', ''CA'', ''CC'', ''CD'',
      ''CF'', ''CG'', ''CH'', ''CI'', ''CK'', ''CL'', ''CM'', ''CN'', ''CO'', ''CR'',
      ''CU'', ''CV'', ''CX'', ''CY'', ''CZ'', ''DE'', ''DJ'', ''DK'', ''DM'', ''DO'',
      ''DZ'', ''EC'', ''EE'', ''EG'', ''EH'', ''ER'', ''ES'', ''ET'', ''FI'', ''FJ'',
      ''FK'', ''FM'', ''FO'', ''FR'', ''SX'', ''GA'', ''GB'', ''GD'', ''GE'', ''GF'',
      ''GH'', ''GI'', ''GL'', ''GM'', ''GN'', ''GP'', ''GQ'', ''GR'', ''GS'', ''GT'',
      ''GU'', ''GW'', ''GY'', ''HK'', ''HM'', ''HN'', ''HR'', ''HT'', ''HU'', ''ID'',
      ''IE'', ''IL'', ''IN'', ''IO'', ''IQ'', ''IR'', ''IS'', ''IT'', ''JM'', ''JO'',
      ''JP'', ''KE'', ''KG'', ''KH'', ''KI'', ''KM'', ''KN'', ''KP'', ''KR'', ''KW'',
      ''KY'', ''KZ'', ''LA'', ''LB'', ''LC'', ''LI'', ''LK'', ''LR'', ''LS'', ''LT'',
      ''LU'', ''LV'', ''LY'', ''MA'', ''MC'', ''MD'', ''MG'', ''MH'', ''MK'', ''ML'',
      ''MM'', ''MN'', ''MO'', ''MP'', ''MQ'', ''MR'', ''MS'', ''MT'', ''MU'', ''MV'',
      ''MW'', ''MX'', ''MY'', ''MZ'', ''NA'', ''NC'', ''NE'', ''NF'', ''NG'', ''NI'',
      ''NL'', ''NO'', ''NP'', ''NR'', ''NU'', ''NZ'', ''OM'', ''PA'', ''PE'', ''PF'',
      ''PG'', ''PH'', ''PK'', ''PL'', ''PM'', ''PN'', ''PR'', ''PS'', ''PT'', ''PW'',
      ''PY'', ''QA'', ''RE'', ''RO'', ''RU'', ''RW'', ''SA'', ''SB'', ''SC'', ''SD'',
      ''SE'', ''SG'', ''SH'', ''SI'', ''SJ'', ''SK'', ''SL'', ''SM'', ''SN'', ''SO'',
      ''SR'', ''ST'', ''SV'', ''SY'', ''SZ'', ''TC'', ''TD'', ''TF'', ''TG'', ''TH'',
      ''TJ'', ''TK'', ''TM'', ''TN'', ''TO'', ''TL'', ''TR'', ''TT'', ''TV'', ''TW'',
      ''TZ'', ''UA'', ''UG'', ''UM'', ''US'', ''UY'', ''UZ'', ''VA'', ''VC'', ''VE'',
      ''VG'', ''VI'', ''VN'', ''VU'', ''WF'', ''WS'', ''YE'', ''YT'', ''RS'', ''ZA'',
      ''ZM'', ''ME'', ''ZW'', ''A1'', ''A2'', ''O1'', ''AX'', ''GG'', ''IM'', ''JE'',
      ''BL'', ''MF'', ''BQ'', ''SS'', ''Unknown'']"

definition getISO :: "u32 \<Rightarrow> string" where
  "getISO id' = (if id' > 0 \<and> unat id' < length id2iso then id2iso ! unat id' else [])"

section \<open>Result records\<close>

record City =
  ID :: u32
  Lat :: float64
  Lon :: float64
  NameRU :: string
  NameEN :: string
  regionSeek :: u32
  countryID :: byte

record Region =
  ID :: u32
  NameRU :: string
  NameEN :: string
  ISO :: string
  countrySeek :: u32

record Country =
  ID :: byte
  ISO :: string
  Lat :: float64
  Lon :: float64
  NameRU :: string
  NameEN :: string

text \<open>A nil pointer is \<open>None\<close>.\<close>

record LocationInfo =
  City :: "City option"
  Region :: "Region option"
  Country :: "Country option"

section \<open>The engine\<close>

text \<open>
  The field \<open>f\<close> of the Go struct is \<open>osFile\<close>: the open file is its contents, a
  byte list that no query changes; a nil handle or a nil slice is \<open>None\<close>. Offsets of type \<open>int64\<close> are integers: they are sums and
  products of values below \<open>2^32\<close> with block sizes that \<open>New\<close> keeps at most 7, far
  from overflow. A slice expression is checked against the length of the list (Go checks
  the capacity, which equals the length for every slice the engine keeps).
\<close>

record SxGeo =
  osFile :: "byte list option"
  header :: header
  packFormats :: "string list"
  dbBegin :: int
  regionsBegin :: int
  citiesBegin :: int
  blockSize :: u32
  memoryMode :: bool
  batchMode :: bool
  byteIndexStr :: "byte list"
  mainIndexStr :: "byte list"
  byteIndexArr :: "u32 list"
  mainIndexArr :: "u32 list"
  dbData :: "byte list option"
  regionsData :: "byte list option"
  citiesData :: "byte list option"

text \<open>
  \<open>f.ReadAt(buf, off)\<close> for a buffer of \<open>len\<close> bytes and \<open>off \<ge> 0\<close>: the bytes read.
  Fewer than \<open>len\<close> bytes come with \<open>io.EOF\<close>, which every caller accepts.
\<close>

definition readAt :: "byte list \<Rightarrow> nat \<Rightarrow> int \<Rightarrow> byte list" where
  "readAt fl len off = take len (drop (nat off) fl)"

section \<open>Reading a record (reader.go, readData)\<close>

definition readData :: "SxGeo \<Rightarrow> u32 \<Rightarrow> u16 \<Rightarrow> nat \<Rightarrow> fields \<times> error option" where
  "readData s seek maxSize dataType =
     (if dataType \<ge> length (packFormats s) \<or> packFormats s ! dataType = [] then ([], None)
      else if maxSize = 0 then ([], None)
      else if memoryMode s then
        (if dataType > 2 then ([], Some ErrInternalDataType)
         else
           (case (if dataType = 1 then regionsData s else citiesData s) of
              None \<Rightarrow> ([], None)
            | Some sourceData \<Rightarrow>
                let sourceLen = int (length sourceData);
                    start = uint seek;
                    end = start + uint maxSize
                in if start < 0 \<or> start > sourceLen then ([], Some ErrInvalidSeek)
                   else
                     let end' = (if end > sourceLen then sourceLen else end)
                     in if start \<ge> end' then ([], None)
                        else unpack (packFormats s ! dataType)
                               (slice sourceData (nat start) (nat end'))))
      else
        (case osFile s of
           None \<Rightarrow> ([], Some ErrNilFile)
         | Some fl \<Rightarrow>
             if dataType > 2 then ([], Some ErrInternalDataType)
             else
               let absOffset = (if dataType = 1 then regionsBegin s else citiesBegin s)
                                 + uint seek;
                   readBytes = readAt fl (unat maxSize) absOffset
               in if length readBytes = 0 then ([], None)
                  else unpack (packFormats s ! dataType) readBytes))"

section \<open>Assembling a location (reader.go, parseCity)\<close>

text \<open>
  The region step: the region read, if any, and the country seek it carries. An error
  of the read is dropped and leaves no region; a panic is not an error and ends
  the call.
\<close>

definition readRegion :: "golib \<Rightarrow> SxGeo \<Rightarrow> bool \<Rightarrow> u32 \<Rightarrow> error + (Region option \<times> u32)" where
  "readRegion lib s full regionSeek' =
     (if full \<and> regionSeek' > 0 \<and> maxRegion (header s) > 0 then
        (if length (packFormats s) \<le> 1 \<or> packFormats s ! 1 = [] then Inr (None, 0)
         else
           (case readData s regionSeek' (maxRegion (header s)) 1 of
              (regionData, Some e) \<Rightarrow> if e = Panic then Inl Panic else Inr (None, 0)
            | (regionData, None) \<Rightarrow>
                if regionData \<noteq> [] then
                  let r = \<lparr> Region.ID = getUint32 lib regionData ''id'',
                            Region.NameRU = getString regionData ''name_ru'',
                            Region.NameEN = getString regionData ''name_en'',
                            Region.ISO = getString regionData ''iso'',
                            countrySeek = getUint32 lib regionData ''country_seek'' \<rparr>
                  in Inr (Some r, countrySeek r)
                else Inr (None, 0)))
      else Inr (None, 0))"

text \<open>
  The country step: the map read at the country seek (empty when nothing is read;
  kept even when the read returns an error) and the country id to use.
\<close>

definition readCountry :: "golib \<Rightarrow> SxGeo \<Rightarrow> u32 \<Rightarrow> byte \<Rightarrow> error + (fields \<times> byte)" where
  "readCountry lib s countrySeek' cityCountryID =
     (if countrySeek' > 0 \<and> maxCountry (header s) > 0 then
        (if length (packFormats s) = 0 \<or> packFormats s ! 0 = [] then Inr ([], cityCountryID)
         else
           (case readData s countrySeek' (maxCountry (header s)) 0 of
              (countryData, err) \<Rightarrow>
                if err = Some Panic then Inl Panic
                else if countryData \<noteq> [] \<and> map_of countryData ''id'' \<noteq> None
                then Inr (countryData, getUint8 lib countryData ''id'')
                else Inr (countryData, cityCountryID)))
      else Inr ([], cityCountryID))"

definition makeCountry :: "fields \<Rightarrow> byte \<Rightarrow> Country option" where
  "makeCountry countryData countryIDToUse =
     (if countryIDToUse > 0 then
        let isoCode = getISO (ucast countryIDToUse)
        in if countryData \<noteq> [] then
             Some \<lparr> Country.ID = countryIDToUse, Country.ISO = isoCode,
                    Country.Lat = getFloat countryData ''lat'',
                    Country.Lon = getFloat countryData ''lon'',
                    Country.NameRU = getString countryData ''name_ru'',
                    Country.NameEN = getString countryData ''name_en'' \<rparr>
           else
             Some \<lparr> Country.ID = countryIDToUse, Country.ISO = isoCode,
                    Country.Lat = OfInt 0, Country.Lon = OfInt 0,
                    Country.NameRU = [], Country.NameEN = [] \<rparr>
      else None)"

definition parseCity :: "golib \<Rightarrow> SxGeo \<Rightarrow> u32 \<Rightarrow> bool \<Rightarrow> error + LocationInfo" where
  "parseCity lib s seek full =
     (if length (packFormats s) \<le> 2 \<or> packFormats s ! 2 = [] then Inl ErrMissingCityFormat
      else
        (case readData s seek (maxCity (header s)) 2 of
           (cityData, Some e) \<Rightarrow> Inl e
         | (cityData, None) \<Rightarrow>
             if cityData = [] then Inl ErrCityEmpty
             else
               let city = \<lparr> City.ID = getUint32 lib cityData ''id'',
                             City.Lat = getFloat cityData ''lat'',
                             City.Lon = getFloat cityData ''lon'',
                             City.NameRU = getString cityData ''name_ru'',
                             City.NameEN = getString cityData ''name_en'',
                             regionSeek = getUint32 lib cityData ''region_seek'',
                             countryID = getUint8 lib cityData ''country_id'' \<rparr>
               in
                 (case readRegion lib s full (regionSeek city) of
                    Inl e \<Rightarrow> Inl e
                  | Inr (region, countrySeek') \<Rightarrow>
                      (case readCountry lib s countrySeek' (countryID city) of
                         Inl e \<Rightarrow> Inl e
                       | Inr (countryData, countryIDToUse) \<Rightarrow>
                           Inr \<lparr> City = Some city, Region = region,
                                 Country = makeCountry countryData countryIDToUse \<rparr>))))"

section \<open>The lookup (search.go)\<close>

text \<open>\<open>binary.BigEndian.PutUint32\<close>: the four bytes of the address, first octet first.\<close>

definition be_bytes :: "u32 \<Rightarrow> byte list" where
  "be_bytes w = [ucast (drop_bit 24 w), ucast (drop_bit 16 w), ucast (drop_bit 8 w), ucast w]"

definition decodeID :: "SxGeo \<Rightarrow> byte list \<Rightarrow> error + u32" where
  "decodeID s idBytes =
     (let expectedLen = unat (idLen (header s))
      in if length idBytes \<noteq> expectedLen then Inl ErrIDLength
         else if expectedLen = 1 then Inr (ucast (idBytes ! 0))
         else if expectedLen = 2 then Inr (ucast (be16 (idBytes ! 0) (idBytes ! 1)))
         else if expectedLen = 3 then
           Inr (push_bit 16 (ucast (idBytes ! 0)) OR push_bit 8 (ucast (idBytes ! 1))
                OR ucast (idBytes ! 2))
         else if expectedLen = 4 then
           Inr (be32 (idBytes ! 0) (idBytes ! 1) (idBytes ! 2) (idBytes ! 3))
         else Inl ErrUnsupportedIDLen)"

text \<open>
  An entry of a parsed index, \<open>arr[i]\<close>, and of a raw index,
  \<open>binary.BigEndian.Uint32(str[offset : offset+4])\<close> with \<open>offset\<close> a \<open>uint32\<close>: outside
  the slice both panic (a sum \<open>offset+4\<close> that wraps is below \<open>offset\<close>, and a slice
  expression with its upper bound below the lower one panics).
\<close>

definition arrAt :: "u32 list \<Rightarrow> u32 \<Rightarrow> error + u32" where
  "arrAt arr i = (if unat i < length arr then Inr (arr ! unat i) else Inl Panic)"

definition strAt :: "byte list \<Rightarrow> u32 \<Rightarrow> error + u32" where
  "strAt str offset =
     (if offset \<le> offset + 4 \<and> unat (offset + 4) \<le> length str
      then Inr (be32 (str ! unat offset) (str ! (unat offset + 1)) (str ! (unat offset + 2))
                  (str ! (unat offset + 3)))
      else Inl Panic)"

subsection \<open>searchIdx\<close>

text \<open>
  One step of a bisection shrinks the distance \<open>max - min\<close>, whatever the two bounds
  are: with \<open>d = max - min > 8\<close> the new distance is \<open>d - d div 2 - 1\<close> or \<open>d div 2\<close>.
\<close>

lemma bisect_upper_decreases: "8 < (d::u32) \<Longrightarrow> unat (d - d div 2 - 1) < unat d"
proof -
  assume "8 < d"
  then have d8: "8 < unat d" by (simp add: word_less_nat_alt)
  have h: "unat (d div 2) = unat d div 2" by (simp add: unat_div)
  have le: "d div 2 \<le> d" by (simp add: word_le_nat_alt h)
  have s1: "unat (d - d div 2) = unat d - unat d div 2"
    using le by (simp add: unat_sub h)
  have "1 \<le> d - d div 2" using d8 s1 by (simp add: word_le_nat_alt)
  then have "unat (d - d div 2 - 1) = unat d - unat d div 2 - 1"
    using s1 by (simp add: unat_sub)
  then show ?thesis using d8 by simp
qed

lemma bisect_lower_decreases: "8 < (d::u32) \<Longrightarrow> unat (d div 2) < unat d"
proof -
  assume "8 < d"
  then have d8: "8 < unat d" by (simp add: word_less_nat_alt)
  have h: "unat (d div 2) = unat d div 2" by (simp add: unat_div)
  show ?thesis using d8 by (simp add: h)
qed

text \<open>The loop \<open>for max-min > 8\<close> on the parsed index: the final \<open>(min, max)\<close>.\<close>

function bisectIdxArr :: "u32 list \<Rightarrow> u32 \<Rightarrow> u32 \<Rightarrow> u32 \<Rightarrow> error + (u32 \<times> u32)" where
  "bisectIdxArr arr ipNumSearch mn mx =
     (if mx - mn > 8 then
        (let mid = mn + (mx - mn) div 2
         in case arrAt arr mid of
              Inl e \<Rightarrow> Inl e
            | Inr v \<Rightarrow>
                if ipNumSearch > v then bisectIdxArr arr ipNumSearch (mid + 1) mx
                else bisectIdxArr arr ipNumSearch mn mid)
      else Inr (mn, mx))"
  by pat_completeness auto
termination
proof (relation "measure (\<lambda>(arr, ip, mn, mx). unat (mx - mn))")
  show "wf (measure (\<lambda>(arr, ip, mn, mx). unat (mx - mn)))" by simp
next
  fix arr :: "u32 list" and ipNumSearch mn mx mid :: u32
  assume gt: "8 < mx - mn" and mid: "mid = mn + (mx - mn) div 2"
  have e: "mx - (mid + 1) = (mx - mn) - (mx - mn) div 2 - 1" by (simp add: mid)
  have "unat ((mx - mn) - (mx - mn) div 2 - 1) < unat (mx - mn)"
    using gt by (rule bisect_upper_decreases)
  then show "((arr, ipNumSearch, mid + 1, mx), arr, ipNumSearch, mn, mx)
       \<in> measure (\<lambda>(arr, ip, mn, mx). unat (mx - mn))"
    by (simp add: e)
next
  fix arr :: "u32 list" and ipNumSearch mn mx mid :: u32
  assume gt: "8 < mx - mn" and mid: "mid = mn + (mx - mn) div 2"
  have e: "mid - mn = (mx - mn) div 2" by (simp add: mid)
  have "unat ((mx - mn) div 2) < unat (mx - mn)"
    using gt by (rule bisect_lower_decreases)
  then show "((arr, ipNumSearch, mn, mid), arr, ipNumSearch, mn, mx)
       \<in> measure (\<lambda>(arr, ip, mn, mx). unat (mx - mn))"
    by (simp add: e)
qed

text \<open>
  The loop \<open>for min <= currentMax\<close> on the parsed index. \<open>min++\<close> wraps at \<open>2^32\<close>, so on
  a slice of \<open>2^32\<close> entries or more the loop may run forever: \<open>None\<close>.
\<close>

partial_function (option) scanIdxArr :: "u32 list \<Rightarrow> u32 \<Rightarrow> u32 \<Rightarrow> u32 \<Rightarrow> (error + u32) option" where
  "scanIdxArr arr ipNumSearch currentMax mn =
     (if mn \<le> currentMax then
        (case arrAt arr mn of
           Inl e \<Rightarrow> Some (Inl e)
         | Inr v \<Rightarrow>
             if ipNumSearch > v then scanIdxArr arr ipNumSearch currentMax (mn + 1)
             else Some (Inr mn))
      else Some (Inr mn))"

declare scanIdxArr.simps [code]

text \<open>The same two loops on the raw index.\<close>

function bisectIdxStr :: "byte list \<Rightarrow> u32 \<Rightarrow> u32 \<Rightarrow> u32 \<Rightarrow> error + (u32 \<times> u32)" where
  "bisectIdxStr str ipNumSearch mn mx =
     (if mx - mn > 8 then
        (let mid = mn + (mx - mn) div 2;
             offset = mid * 4
         in case strAt str offset of
              Inl e \<Rightarrow> Inl e
            | Inr idxVal \<Rightarrow>
                if ipNumSearch > idxVal then bisectIdxStr str ipNumSearch (mid + 1) mx
                else bisectIdxStr str ipNumSearch mn mid)
      else Inr (mn, mx))"
  by pat_completeness auto
termination
proof (relation "measure (\<lambda>(str, ip, mn, mx). unat (mx - mn))")
  show "wf (measure (\<lambda>(str, ip, mn, mx). unat (mx - mn)))" by simp
next
  fix str :: "byte list" and ipNumSearch mn mx mid :: u32
  assume gt: "8 < mx - mn" and mid: "mid = mn + (mx - mn) div 2"
  have e: "mx - (mid + 1) = (mx - mn) - (mx - mn) div 2 - 1" by (simp add: mid)
  have "unat ((mx - mn) - (mx - mn) div 2 - 1) < unat (mx - mn)"
    using gt by (rule bisect_upper_decreases)
  then show "((str, ipNumSearch, mid + 1, mx), str, ipNumSearch, mn, mx)
       \<in> measure (\<lambda>(str, ip, mn, mx). unat (mx - mn))"
    by (simp add: e)
next
  fix str :: "byte list" and ipNumSearch mn mx mid :: u32
  assume gt: "8 < mx - mn" and mid: "mid = mn + (mx - mn) div 2"
  have e: "mid - mn = (mx - mn) div 2" by (simp add: mid)
  have "unat ((mx - mn) div 2) < unat (mx - mn)"
    using gt by (rule bisect_lower_decreases)
  then show "((str, ipNumSearch, mn, mid), str, ipNumSearch, mn, mx)
       \<in> measure (\<lambda>(str, ip, mn, mx). unat (mx - mn))"
    by (simp add: e)
qed

partial_function (option) scanIdxStr :: "byte list \<Rightarrow> u32 \<Rightarrow> u32 \<Rightarrow> u32 \<Rightarrow> u32 \<Rightarrow> (error + u32) option" where
  "scanIdxStr str indexLenBytes ipNumSearch currentMax mn =
     (if mn \<le> currentMax then
        (let offset = mn * 4
         in if offset + 4 > indexLenBytes then Some (Inr mn)
            else
              (case strAt str offset of
                 Inl e \<Rightarrow> Some (Inl e)
               | Inr idxVal \<Rightarrow>
                   if ipNumSearch > idxVal
                   then scanIdxStr str indexLenBytes ipNumSearch currentMax (mn + 1)
                   else Some (Inr mn)))
      else Some (Inr mn))"

declare scanIdxStr.simps [code]

definition searchIdx :: "SxGeo \<Rightarrow> byte list \<Rightarrow> u32 \<Rightarrow> u32 \<Rightarrow> error + u32" where
  "searchIdx s ipBytes mn mx =
     (let ipNumSearch = be32 (ipBytes ! 0) (ipBytes ! 1) (ipBytes ! 2) (ipBytes ! 3);
          useParsedIndexes = (batchMode s \<or> memoryMode s)
      in if useParsedIndexes then
           (let indexLen = (of_nat (length (mainIndexArr s)) :: u32)
            in if indexLen = 0 then Inr mn
               else
                 let mx' = (if mx \<ge> indexLen then indexLen - 1 else mx);
                     currentMax = mx'
                 in if mn > currentMax then Inr mn
                    else
                      (case bisectIdxArr (mainIndexArr s) ipNumSearch mn mx' of
                         Inl e \<Rightarrow> Inl e
                       | Inr (mn', mx'') \<Rightarrow>
                           (case scanIdxArr (mainIndexArr s) ipNumSearch currentMax mn' of
                              None \<Rightarrow> Inl Diverges
                            | Some r \<Rightarrow> r)))
         else
           (let indexLenBytes = (of_nat (length (mainIndexStr s)) :: u32)
            in if indexLenBytes = 0 then Inr mn
               else
                 let indexLen = indexLenBytes div 4
                 in if indexLen = 0 then Inr mn
                    else
                      let mx' = (if mx \<ge> indexLen then indexLen - 1 else mx);
                          currentMax = mx'
                      in if mn > currentMax then Inr mn
                         else
                           (case bisectIdxStr (mainIndexStr s) ipNumSearch mn mx' of
                              Inl e \<Rightarrow> Inl e
                            | Inr (mn', mx'') \<Rightarrow>
                                (case scanIdxStr (mainIndexStr s) indexLenBytes ipNumSearch
                                        currentMax mn' of
                                   None \<Rightarrow> Inl Diverges
                                 | Some r \<Rightarrow> r))))"

subsection \<open>searchDb\<close>

text \<open>The comparison of the three-byte suffix with the three bytes of a block.\<close>

definition cmp3 :: "byte list \<Rightarrow> byte list \<Rightarrow> int" where
  "cmp3 ipSuffix blockIP =
     (if ipSuffix ! 0 > blockIP ! 0 then 1
      else if ipSuffix ! 0 < blockIP ! 0 then - 1
      else if ipSuffix ! 1 > blockIP ! 1 then 1
      else if ipSuffix ! 1 < blockIP ! 1 then - 1
      else if ipSuffix ! 2 > blockIP ! 2 then 1
      else if ipSuffix ! 2 < blockIP ! 2 then - 1
      else 0)"

text \<open>\<open>data[blockOffset : blockOffset+3]\<close> for the block of index \<open>i\<close>.\<close>

definition blockIPAt :: "byte list \<Rightarrow> u32 \<Rightarrow> u32 \<Rightarrow> error + byte list" where
  "blockIPAt data bs i =
     (let blockOffset = unat i * unat bs
      in if blockOffset + dbBlockLenOffset \<le> length data
         then Inr (slice data blockOffset (blockOffset + dbBlockLenOffset))
         else Inl Panic)"

function bisectDb :: "byte list \<Rightarrow> u32 \<Rightarrow> byte list \<Rightarrow> u32 \<Rightarrow> u32 \<Rightarrow> error + (u32 \<times> u32)" where
  "bisectDb data bs ipSuffix mn mx =
     (if mx - mn > 8 then
        (let mid = mn + (mx - mn) div 2
         in case blockIPAt data bs mid of
              Inl e \<Rightarrow> Inl e
            | Inr blockIP \<Rightarrow>
                if cmp3 ipSuffix blockIP > 0 then bisectDb data bs ipSuffix (mid + 1) mx
                else bisectDb data bs ipSuffix mn mid)
      else Inr (mn, mx))"
  by pat_completeness auto
termination
proof (relation "measure (\<lambda>(data, bs, ip, mn, mx). unat (mx - mn))")
  show "wf (measure (\<lambda>(data, bs, ip, mn, mx). unat (mx - mn)))" by simp
next
  fix data ipSuffix :: "byte list" and bs mn mx mid :: u32
  assume gt: "8 < mx - mn" and mid: "mid = mn + (mx - mn) div 2"
  have e: "mx - (mid + 1) = (mx - mn) - (mx - mn) div 2 - 1" by (simp add: mid)
  have "unat ((mx - mn) - (mx - mn) div 2 - 1) < unat (mx - mn)"
    using gt by (rule bisect_upper_decreases)
  then show "((data, bs, ipSuffix, mid + 1, mx), data, bs, ipSuffix, mn, mx)
       \<in> measure (\<lambda>(data, bs, ip, mn, mx). unat (mx - mn))"
    by (simp add: e)
next
  fix data ipSuffix :: "byte list" and bs mn mx mid :: u32
  assume gt: "8 < mx - mn" and mid: "mid = mn + (mx - mn) div 2"
  have e: "mid - mn = (mx - mn) div 2" by (simp add: mid)
  have "unat ((mx - mn) div 2) < unat (mx - mn)"
    using gt by (rule bisect_lower_decreases)
  then show "((data, bs, ipSuffix, mn, mid), data, bs, ipSuffix, mn, mx)
       \<in> measure (\<lambda>(data, bs, ip, mn, mx). unat (mx - mn))"
    by (simp add: e)
qed

text \<open>The loop \<open>for min < currentMax\<close>: here \<open>min++\<close> stays at or below \<open>currentMax\<close>.\<close>

function scanDb :: "byte list \<Rightarrow> u32 \<Rightarrow> byte list \<Rightarrow> u32 \<Rightarrow> u32 \<Rightarrow> error + u32" where
  "scanDb data bs ipSuffix currentMax mn =
     (if mn < currentMax then
        (case blockIPAt data bs mn of
           Inl e \<Rightarrow> Inl e
         | Inr blockIP \<Rightarrow>
             if cmp3 ipSuffix blockIP < 0 then Inr mn
             else scanDb data bs ipSuffix currentMax (mn + 1))
      else Inr mn)"
  by pat_completeness auto
termination
proof (relation "measure (\<lambda>(data, bs, ip, currentMax, mn). unat currentMax - unat mn)")
  show "wf (measure (\<lambda>(data, bs, ip, currentMax, mn). unat currentMax - unat mn))" by simp
next
  fix data ipSuffix :: "byte list" and bs currentMax mn :: u32
  assume lt: "mn < currentMax"
  then have l: "unat mn < unat currentMax" by (simp add: word_less_nat_alt)
  have "unat mn + 1 < 2 ^ 32" using l unsigned_less [of currentMax, where ?'a = nat] by simp
  then have "unat (mn + 1) = unat mn + 1" by (simp add: unat_word_ariths)
  then show "((data, bs, ipSuffix, currentMax, mn + 1), data, bs, ipSuffix, currentMax, mn)
       \<in> measure (\<lambda>(data, bs, ip, currentMax, mn). unat currentMax - unat mn)"
    using l by simp
qed

text \<open>
  The id of the block before \<open>min\<close>. The index \<open>min - 1\<close> is computed in \<open>uint32\<close> and
  then widened, so it is never negative: for \<open>min = 0\<close> it is \<open>2^32 - 1\<close>. The end
  offset is cut to 32 bits when it is compared with \<open>dataLen\<close>; the slice expression
  uses the whole offsets and panics outside the data.
\<close>

definition idBefore :: "SxGeo \<Rightarrow> byte list \<Rightarrow> u32 \<Rightarrow> error + u32" where
  "idBefore s data mn =
     (let dataLen = (of_nat (length data) :: u32);
          targetBlockIdx = uint (mn - 1);
          idOffset = targetBlockIdx * uint (blockSize s) + int dbBlockLenOffset;
          idEndOffset = idOffset + uint (idLen (header s))
      in if targetBlockIdx < 0 then Inr 0
         else if (word_of_int idEndOffset :: u32) > dataLen then Inr 0
         else if nat idEndOffset \<le> length data
         then decodeID s (slice data (nat idOffset) (nat idEndOffset))
         else Inl Panic)"

definition searchDb :: "SxGeo \<Rightarrow> byte list \<Rightarrow> byte list \<Rightarrow> u32 \<Rightarrow> u32 \<Rightarrow> error + u32" where
  "searchDb s data ipBytes mn mx =
     (let ipSuffix = drop 1 ipBytes;
          dataLen = (of_nat (length data) :: u32)
      in if dataLen = 0 then (if mx > mn then Inl ErrEmptyData else Inr 0)
         else if blockSize s = 0 then Inl Panic
         else
           let numBlocksInData = dataLen div blockSize s;
               mx' = (if mx > numBlocksInData then numBlocksInData else mx)
           in if mn \<ge> mx' then
                (if mn > 0 then
                   (let targetBlockIdx = uint (mn - 1);
                        idOffset = targetBlockIdx * uint (blockSize s) + int dbBlockLenOffset;
                        idEndOffset = idOffset + uint (idLen (header s))
                    in if idOffset \<ge> 0 \<and> (word_of_int idEndOffset :: u32) \<le> dataLen then
                         (if nat idEndOffset \<le> length data
                          then decodeID s (slice data (nat idOffset) (nat idEndOffset))
                          else Inl Panic)
                       else Inr 0)
                 else Inr 0)
              else
                (case bisectDb data (blockSize s) ipSuffix mn mx' of
                   Inl e \<Rightarrow> Inl e
                 | Inr (mn', mx'') \<Rightarrow>
                     (case scanDb data (blockSize s) ipSuffix mx' mn' of
                        Inl e \<Rightarrow> Inl e
                      | Inr mn'' \<Rightarrow> idBefore s data mn'')))"

subsection \<open>getNum\<close>

text \<open>The first octet of an address: \<open>ipBytes[0]\<close>.\<close>

definition firstOctet :: "u32 \<Rightarrow> byte" where
  "firstOctet w = ucast (drop_bit 24 w)"

text \<open>
  The block range of the first octet, from the parsed or the raw byte index
  (search.go, lines 39 to 54).
\<close>

definition byteIndexRange :: "SxGeo \<Rightarrow> u32 \<Rightarrow> error + (u32 \<times> u32)" where
  "byteIndexRange s ip1 =
     (if batchMode s \<or> memoryMode s then
        (case arrAt (byteIndexArr s) (ip1 - 1) of
           Inl e \<Rightarrow> Inl e
         | Inr minBlock \<Rightarrow>
             (case arrAt (byteIndexArr s) ip1 of
                Inl e \<Rightarrow> Inl e
              | Inr maxBlock \<Rightarrow> Inr (minBlock, maxBlock)))
      else
        (let minOffset = (ip1 - 1) * 4;
             maxOffset = ip1 * 4
         in case strAt (byteIndexStr s) minOffset of
              Inl e \<Rightarrow> Inl e
            | Inr minBlock \<Rightarrow>
                (case strAt (byteIndexStr s) maxOffset of
                   Inl e \<Rightarrow> Inl e
                 | Inr maxBlock \<Rightarrow> Inr (minBlock, maxBlock))))"

text \<open>The narrowing by the main index (lines 56 to 119): \<open>(searchMin, searchMax)\<close>.\<close>

definition narrowRange :: "SxGeo \<Rightarrow> byte list \<Rightarrow> u32 \<Rightarrow> u32 \<Rightarrow> error + (u32 \<times> u32)" where
  "narrowRange s ipBytes minBlock maxBlock =
     (let rangeBlocks' = (ucast (rangeBlocks (header s)) :: u32)
      in if maxBlock - minBlock > rangeBlocks' then
           (if rangeBlocks' = 0 then Inl ErrRangeZero
            else
              let mainIdxMin = minBlock div rangeBlocks';
                  mainIdxMax0 = (maxBlock - 1) div rangeBlocks';
                  mainIdxMax = (if mainIdxMax0 < mainIdxMin then mainIdxMin else mainIdxMax0)
              in case searchIdx s ipBytes mainIdxMin mainIdxMax of
                   Inl e \<Rightarrow> Inl e
                 | Inr part \<Rightarrow>
                     let searchMin0 = (if part = 0 then minBlock else part * rangeBlocks');
                         searchMax0 = (if part \<ge> ucast (mainIndexLen (header s))
                                       then dbItems (header s)
                                       else (part + 1) * rangeBlocks');
                         searchMin = (if searchMin0 < minBlock then minBlock else searchMin0);
                         searchMax = (if searchMax0 > maxBlock then maxBlock else searchMax0)
                     in Inr (searchMin, searchMax))
         else Inr (minBlock, maxBlock))"

text \<open>The final checks on the range (lines 121 to 152).\<close>

definition finalRange :: "SxGeo \<Rightarrow> u32 \<Rightarrow> u32 \<Rightarrow> error + (u32 \<times> u32)" where
  "finalRange s searchMin searchMax =
     (case
        (if searchMin \<ge> searchMax then
           (if searchMin < dbItems (header s) then Inr (searchMin, searchMin + 1)
            else if dbItems (header s) > 0
            then Inr (dbItems (header s) - 1, dbItems (header s))
            else Inl ErrEmptyDB)
         else Inr (searchMin, searchMax))
      of
        Inl e \<Rightarrow> Inl e
      | Inr (searchMin', searchMax') \<Rightarrow>
          Inr (searchMin',
               if searchMax' > dbItems (header s) then dbItems (header s) else searchMax'))"

text \<open>
  The blocks to search, from memory or from the file (lines 154 to 238): either the
  slice handed to \<open>searchDb\<close> (\<open>Inr (Inl dbPart)\<close>) or the value returned at once from
  the fall-back to the last block (\<open>Inr (Inr id)\<close>). The sum \<open>dbBlockLenOffset+idLen\<close> of
  the file branch is an \<open>uint8\<close> sum.
\<close>

definition dbPartToSearch :: "SxGeo \<Rightarrow> u32 \<Rightarrow> u32 \<Rightarrow> error + (byte list + u32)" where
  "dbPartToSearch s searchMin searchMax =
     (if memoryMode s then
        (case dbData s of
           None \<Rightarrow> Inl ErrDbDataNil
         | Some dbData' \<Rightarrow>
             let startByte = uint searchMin * uint (blockSize s);
                 endByte0 = uint searchMax * uint (blockSize s);
                 endByte = (if endByte0 > int (length dbData') then int (length dbData')
                            else endByte0)
             in if startByte \<ge> endByte then
                  (let lastBlockStart = uint (dbItems (header s) - 1) * uint (blockSize s);
                       idOffset = lastBlockStart + int dbBlockLenOffset
                   in if dbItems (header s) > 0
                         \<and> idOffset + uint (idLen (header s)) \<le> int (length dbData')
                      then (case decodeID s (slice dbData' (nat idOffset)
                                     (nat (idOffset + uint (idLen (header s))))) of
                              Inl e \<Rightarrow> Inl e
                            | Inr v \<Rightarrow> Inr (Inr v))
                      else Inl ErrInvalidMemRange)
                else Inr (Inl (slice dbData' (nat startByte) (nat endByte))))
      else
        (let readCount = searchMax - searchMin
         in if readCount = 0 then Inl ErrZeroItems
            else
              let readLen = unat readCount * unat (blockSize s);
                  readOffset = dbBegin s + uint searchMin * uint (blockSize s)
              in case osFile s of
                   None \<Rightarrow> Inl ErrNilFile
                 | Some fl \<Rightarrow>
                     let dbPart = readAt fl readLen readOffset
                     in if length dbPart = 0 \<and> readLen > 0 then
                          (let lastBlockOffset =
                                 dbBegin s + uint (dbItems (header s) - 1) * uint (blockSize s);
                               lastBlockBytes = readAt fl (unat (blockSize s)) lastBlockOffset;
                               idEnd = unat (3 + idLen (header s))
                           in if dbItems (header s) > 0
                                 \<and> length lastBlockBytes = unat (blockSize s)
                                 \<and> length lastBlockBytes \<ge> idEnd
                              then
                                (if dbBlockLenOffset \<le> idEnd
                                 then (case decodeID s (slice lastBlockBytes dbBlockLenOffset idEnd) of
                                         Inl e \<Rightarrow> Inl e
                                       | Inr v \<Rightarrow> Inr (Inr v))
                                 else Inl Panic)
                              else Inl ErrReadZero)
                        else Inr (Inl dbPart)))"

definition getNum :: "golib \<Rightarrow> SxGeo \<Rightarrow> string \<Rightarrow> error + u32" where
  "getNum lib s ipStr =
     (case ParseIP4 lib ipStr of
        None \<Rightarrow> Inl ErrInvalidIP
      | Some ipNum \<Rightarrow>
          let ipBytes = be_bytes ipNum;
              ip1 = (ucast (ipBytes ! 0) :: u32);
              byteIndexLen' = (ucast (byteIndexLen (header s)) :: u32)
          in if ip1 = 0 \<or> ip1 = 10 \<or> ip1 = 127 \<or> ip1 \<ge> byteIndexLen' then Inl ErrReservedRange
             else
               (case byteIndexRange s ip1 of
                  Inl e \<Rightarrow> Inl e
                | Inr (minBlock, maxBlock) \<Rightarrow>
                    (case narrowRange s ipBytes minBlock maxBlock of
                       Inl e \<Rightarrow> Inl e
                     | Inr (searchMin0, searchMax0) \<Rightarrow>
                         (case finalRange s searchMin0 searchMax0 of
                            Inl e \<Rightarrow> Inl e
                          | Inr (searchMin, searchMax) \<Rightarrow>
                              (case dbPartToSearch s searchMin searchMax of
                                 Inl e \<Rightarrow> Inl e
                               | Inr (Inr v) \<Rightarrow> Inr v
                               | Inr (Inl dbPart) \<Rightarrow>
                                   if blockSize s = 0 then Inl Panic
                                   else searchDb s dbPart ipBytes 0
                                          (of_nat (length dbPart div unat (blockSize s))))))))"

section \<open>The public queries\<close>

definition GetCountryID :: "golib \<Rightarrow> SxGeo \<Rightarrow> string \<Rightarrow> error + u32" where
  "GetCountryID lib s ip =
     (case getNum lib s ip of
        Inl e \<Rightarrow> if e = ErrReservedRange then Inr 0 else Inl e
      | Inr seekOrID \<Rightarrow>
          if seekOrID = 0 then Inr 0
          else if maxCity (header s) > 0 then
            (case readData s seekOrID (maxCity (header s)) 2 of
               (cityInfo, Some e) \<Rightarrow> Inl e
             | (cityInfo, None) \<Rightarrow>
                 if cityInfo = [] then Inr 0
                 else Inr (ucast (getUint8 lib cityInfo ''country_id'')))
          else Inr seekOrID)"

definition GetCountry :: "golib \<Rightarrow> SxGeo \<Rightarrow> string \<Rightarrow> error + string" where
  "GetCountry lib s ip =
     (case GetCountryID lib s ip of
        Inl e \<Rightarrow> Inl e
      | Inr id' \<Rightarrow> if id' = 0 then Inr [] else Inr (getISO id'))"

definition GetCity :: "golib \<Rightarrow> SxGeo \<Rightarrow> string \<Rightarrow> error + LocationInfo option" where
  "GetCity lib s ip =
     (if maxCity (header s) = 0 then Inr None
      else
        (case getNum lib s ip of
           Inl e \<Rightarrow> if e = ErrReservedRange then Inr None else Inl e
         | Inr seek \<Rightarrow>
             if seek = 0 then Inr None
             else (case parseCity lib s seek False of
                     Inl e \<Rightarrow> Inl e
                   | Inr info \<Rightarrow> Inr (Some info))))"

definition GetCityFull :: "golib \<Rightarrow> SxGeo \<Rightarrow> string \<Rightarrow> error + LocationInfo option" where
  "GetCityFull lib s ip =
     (if maxCity (header s) = 0 then Inr None
      else
        (case getNum lib s ip of
           Inl e \<Rightarrow> if e = ErrReservedRange then Inr None else Inl e
         | Inr seek \<Rightarrow>
             if seek = 0 then Inr None
             else (case parseCity lib s seek True of
                     Inl e \<Rightarrow> Inl e
                   | Inr info \<Rightarrow> Inr (Some info))))"

text \<open>
  \<open>Get\<close> returns an \<open>interface{}\<close>: the pointer of \<open>GetCityFull\<close> for a city database,
  the string of \<open>GetCountry\<close> otherwise.
\<close>

datatype get_result = GotLocation "LocationInfo option" | GotISO string

definition Get :: "golib \<Rightarrow> SxGeo \<Rightarrow> string \<Rightarrow> error + get_result" where
  "Get lib s ip =
     (if maxCity (header s) > 0 then
        (case GetCityFull lib s ip of Inl e \<Rightarrow> Inl e | Inr info \<Rightarrow> Inr (GotLocation info))
      else
        (case GetCountry lib s ip of Inl e \<Rightarrow> Inl e | Inr iso' \<Rightarrow> Inr (GotISO iso')))"

section \<open>Opening a database (New)\<close>

text \<open>
  \<open>New\<close> on the contents of the file and the mode bits. The reads are sequential
  \<open>io.ReadFull\<close> calls, which fail when the file ends early; opening the file and
  other input-output failures are outside the model. \<open>dbItems*blockSize\<close> is a \<open>uint32\<close>
  product.
\<close>

definition parseIndex :: "byte list \<Rightarrow> nat \<Rightarrow> u32 list" where
  "parseIndex raw n =
     map (\<lambda>i. be32 (raw ! (i * 4)) (raw ! (i * 4 + 1)) (raw ! (i * 4 + 2)) (raw ! (i * 4 + 3)))
       [0..<n]"

definition New :: "byte list \<Rightarrow> nat \<Rightarrow> error + SxGeo" where
  "New fl mode =
     (let memoryMode' = (mode AND 1 \<noteq> 0);
          batchMode' = (mode AND 2 \<noteq> 0)
      in if length fl < dbHeaderLen then Inl ErrHeaderRead
         else
           (case parseHeader (take dbHeaderLen fl) of
              None \<Rightarrow> Inl ErrInvalidHeader
            | Some h \<Rightarrow>
                let blockSize' = (3 + ucast (idLen h) :: u32);
                    ps = unat (packSize h)
                in if ps > 0 \<and> length fl < dbHeaderLen + ps then Inl ErrPackRead
                   else if ps = 0 \<and> maxCity h > 0 then Inl ErrNoPackFormats
                   else
                     let packFormats' =
                           (if ps > 0
                            then split_on NUL
                                   (trimRight (string_of_bytes (slice fl dbHeaderLen (dbHeaderLen + ps)))
                                      [NUL])
                            else []);
                         pos = dbHeaderLen + ps;
                         byteIndexSize = unat (byteIndexLen h) * 4;
                         mainIndexSize = unat (mainIndexLen h) * 4;
                         useParsedIndexes = (batchMode' \<or> memoryMode')
                     in if length fl < pos + byteIndexSize then Inl ErrByteIndexRead
                        else if length fl < pos + byteIndexSize + mainIndexSize
                        then Inl ErrMainIndexRead
                        else
                          let rawBIdx = slice fl pos (pos + byteIndexSize);
                              rawMIdx = slice fl (pos + byteIndexSize)
                                          (pos + byteIndexSize + mainIndexSize);
                              dbBegin' = pos + byteIndexSize + mainIndexSize;
                              dbSize = unat (dbItems h * blockSize');
                              regionsBegin' = dbBegin' + dbSize;
                              citiesBegin' = regionsBegin' + unat (regionSize h);
                              s = \<lparr> osFile = Some fl, header = h, packFormats = packFormats',
                                    dbBegin = int dbBegin', regionsBegin = int regionsBegin',
                                    citiesBegin = int citiesBegin', blockSize = blockSize',
                                    memoryMode = memoryMode', batchMode = batchMode',
                                    byteIndexStr = (if useParsedIndexes then [] else rawBIdx),
                                    mainIndexStr = (if useParsedIndexes then [] else rawMIdx),
                                    byteIndexArr =
                                      (if useParsedIndexes
                                       then parseIndex rawBIdx (unat (byteIndexLen h)) else []),
                                    mainIndexArr =
                                      (if useParsedIndexes
                                       then parseIndex rawMIdx (unat (mainIndexLen h)) else []),
                                    dbData = None, regionsData = None, citiesData = None \<rparr>
                          in if memoryMode' then
                               (if length fl < dbBegin' + dbSize then Inl ErrDbRead
                                else if regionSize h > 0
                                        \<and> length fl < regionsBegin' + unat (regionSize h)
                                then Inl ErrRegionsRead
                                else if citySize h > 0
                                        \<and> length fl < citiesBegin' + unat (citySize h)
                                then Inl ErrCitiesRead
                                else
                                  Inr (s \<lparr> osFile := None,
                                          dbData := Some (slice fl dbBegin' (dbBegin' + dbSize)),
                                          regionsData :=
                                            (if regionSize h > 0
                                             then Some (slice fl regionsBegin'
                                                          (regionsBegin' + unat (regionSize h)))
                                             else None),
                                          citiesData :=
                                            (if citySize h > 0
                                             then Some (slice fl citiesBegin'
                                                          (citiesBegin' + unat (citySize h)))
                                             else None) \<rparr>))
                             else Inr s))"

section \<open>Sample data\<close>

text \<open>A 40-byte header of a city database: one block, one-byte ids, an 11-byte format blob.\<close>

definition sample_header :: "byte list" where
  "sample_header =
     [0x53, 0x78, 0x47, 22,  0x5F, 0x00, 0x00, 0x01,  2, 0,  2,  0, 1,  0, 1,
      0, 0, 0, 1,  1,  0, 0,  0, 16,  0, 0, 0, 0,  0, 0, 0, 4,  0, 0,  0, 0, 0, 0,  0, 11]"

text \<open>
  A city database of 208 bytes. Four blocks under the first octet 1: the block
  \<open>1.0.0.0\<close> points to the city record at seek 9 (Moscow, with a region at seek 1 whose
  country record is at seek 1 of the cities section), the block \<open>1.2.3.0\<close> to the city
  record at seek 24 (country id 255, no region), the block \<open>1.5.0.0\<close> to the seek 38,
  two bytes before the end of the cities section, and the block \<open>1.9.0.0\<close> to the seek
  45, which is beyond the 40 bytes of the cities section. \<open>sample_mem\<close> and \<open>sample_file\<close>
  are the engines that \<open>New\<close> builds from it in memory mode and in file mode.
  \<open>sample_country_db\<close> is a country database with the ids 185 and 255.
\<close>

definition sample_db :: "byte list" where
  "sample_db =
     [83, 120, 71, 22, 95, 0, 0, 1, 4, 0, 2, 0, 1, 0, 4, 0, 0, 0, 4, 1, 0, 32, 0, 32, 0, 0,
      0, 13, 0, 0, 0, 40, 0, 16, 0, 0, 0, 0, 0, 87, 84, 58, 105, 100, 47, 98, 58, 110, 97,
      109, 101, 95, 101, 110, 0, 83, 58, 105, 100, 47, 77, 58, 99, 111, 117, 110, 116, 114,
      121, 95, 115, 101, 101, 107, 47, 98, 58, 110, 97, 109, 101, 95, 101, 110, 0, 77, 58,
      114, 101, 103, 105, 111, 110, 95, 115, 101, 101, 107, 47, 84, 58, 99, 111, 117, 110,
      116, 114, 121, 95, 105, 100, 47, 73, 58, 105, 100, 47, 98, 58, 110, 97, 109, 101, 95,
      101, 110, 0, 0, 0, 0, 0, 0, 0, 0, 4, 1, 0, 0, 0, 0, 0, 0, 9, 2, 3, 0, 24, 5, 0, 0,
      38, 9, 0, 0, 45, 0, 48, 0, 1, 0, 0, 77, 111, 115, 107, 118, 97, 0, 0, 185, 82, 117,
      115, 115, 105, 97, 0, 1, 0, 0, 185, 101, 2, 8, 0, 77, 111, 115, 99, 111, 119, 0, 0,
      0, 0, 255, 77, 0, 0, 0, 78, 111, 119, 104, 101, 114, 101, 0]"

definition sample_country_db :: "byte list" where
  "sample_country_db =
     [83, 120, 71, 22, 95, 0, 0, 1, 1, 0, 2, 0, 1, 0, 4, 0, 0, 0, 2, 1, 0, 0, 0, 0, 0, 0,
      0, 0, 0, 0, 0, 0, 0, 0, 0, 0, 0, 0, 0, 0, 0, 0, 0, 0, 0, 0, 0, 2, 1, 0, 0, 0, 0, 0,
      0, 185, 2, 3, 0, 255]"

definition sample_city_header :: header where
  "sample_city_header =
     \<lparr> version = 22, timestamp = 1593835521, dbType = 4, charset = 0, byteIndexLen = 2,
            mainIndexLen = 1, rangeBlocks = 4, dbItems = 4, idLen = 1, maxRegion = 32,
            maxCity = 32, regionSize = 13, citySize = 40, maxCountry = 16, countrySize = 0,
            packSize = 87 \<rparr>"

definition sample_mem :: SxGeo where
  "sample_mem =
     \<lparr> osFile = None, header = sample_city_header,
       packFormats = [''T:id/b:name_en'', ''S:id/M:country_seek/b:name_en'',
                      ''M:region_seek/T:country_id/I:id/b:name_en''],
       dbBegin = 139, regionsBegin = 155, citiesBegin = 168, blockSize = 4,
       memoryMode = True, batchMode = False, byteIndexStr = [], mainIndexStr = [],
       byteIndexArr = [0, 4], mainIndexArr = [16777216],
       dbData = Some [0, 0, 0, 9, 2, 3, 0, 24, 5, 0, 0, 38, 9, 0, 0, 45],
       regionsData = Some [0, 48, 0, 1, 0, 0, 77, 111, 115, 107, 118, 97, 0],
       citiesData = Some
          [0, 185, 82, 117, 115, 115, 105, 97, 0, 1, 0, 0, 185, 101, 2, 8, 0, 77, 111, 115,
           99, 111, 119, 0, 0, 0, 0, 255, 77, 0, 0, 0, 78, 111, 119, 104, 101, 114, 101, 0] \<rparr>"

definition sample_file :: SxGeo where
  "sample_file =
     \<lparr> osFile = Some sample_db, header = sample_city_header,
       packFormats = [''T:id/b:name_en'', ''S:id/M:country_seek/b:name_en'',
                      ''M:region_seek/T:country_id/I:id/b:name_en''],
       dbBegin = 139, regionsBegin = 155, citiesBegin = 168, blockSize = 4,
       memoryMode = False, batchMode = False, byteIndexStr = [0, 0, 0, 0, 0, 0, 0, 4],
       mainIndexStr = [1, 0, 0, 0], byteIndexArr = [], mainIndexArr = [],
       dbData = None, regionsData = None, citiesData = None \<rparr>"

definition sample_country :: SxGeo where
  "sample_country =
     \<lparr> osFile = None,
       header = \<lparr> version = 22, timestamp = 1593835521, dbType = 1, charset = 0,
                  byteIndexLen = 2, mainIndexLen = 1, rangeBlocks = 4, dbItems = 2, idLen = 1,
                  maxRegion = 0, maxCity = 0, regionSize = 0, citySize = 0, maxCountry = 0,
                  countrySize = 0, packSize = 0 \<rparr>,
       packFormats = [], dbBegin = 52, regionsBegin = 60, citiesBegin = 60, blockSize = 4,
       memoryMode = True, batchMode = False, byteIndexStr = [], mainIndexStr = [],
       byteIndexArr = [0, 2], mainIndexArr = [16777216],
       dbData = Some [0, 0, 0, 185, 2, 3, 0, 255], regionsData = None, citiesData = None \<rparr>"

definition sample_lib :: golib where
  "sample_lib =
     \<lparr> ParseIP4 = map_of [(''1.0.0.1'', 0x01000001), (''1.2.3.55'', 0x01020337),
                          (''1.5.0.0'', 0x01050000), (''1.9.0.0'', 0x01090000),
                          (''10.0.0.1'', 0x0A000001)],
       floatInt = (\<lambda>v. case v of OfInt i \<Rightarrow> Some i | _ \<Rightarrow> None) \<rparr>"

section \<open>Notions used in the statements\<close>

text \<open>The width of the fixed-width type codes of \<open>unpack\<close>; the codes \<open>c\<close> and \<open>b\<close> have none.\<close>

definition fixedWidth :: "char \<Rightarrow> nat option" where
  "fixedWidth c =
     (if c = CHR ''t'' \<or> c = CHR ''T'' then Some 1
      else if c = CHR ''s'' \<or> c = CHR ''S'' \<or> c = CHR ''n'' then Some 2
      else if c = CHR ''m'' \<or> c = CHR ''M'' then Some 3
      else if c = CHR ''i'' \<or> c = CHR ''I'' \<or> c = CHR ''f'' \<or> c = CHR ''N'' then Some 4
      else if c = CHR ''d'' then Some 8
      else None)"

section \<open>Big-endian decoding, numerically\<close>

lemma byte_lt: "unat (a :: byte) < 256"
  using unsigned_less [of a, where ?'a = nat] by simp

lemma be16_cat: "be16 a b = word_cat a b"
  by (simp add: be16_def word_cat_eq_push_bit_or or.commute)

lemma unat_be16: "unat (be16 a b) = 256 * unat a + unat b"
  using byte_lt [of a] byte_lt [of b]
  unfolding be16_cat word_cat_eq
  by (simp add: unat_word_ariths unsigned_push_bit_eq unsigned_ucast_eq take_bit_eq_mod
      push_bit_eq_mult)

lemma be32_cat:
  "be32 a b c d = word_cat a (word_cat b (word_cat c d :: 16 word) :: 24 word)"
  by (rule bit_word_eqI)
    (auto simp add: be32_def bit_word_cat_iff bit_or_iff bit_push_bit_iff bit_ucast_iff
      dest: bit_imp_le_length)

lemma unat_be32:
  "unat (be32 a b c d) = 16777216 * unat a + 65536 * unat b + 256 * unat c + unat d"
  using byte_lt [of a] byte_lt [of b] byte_lt [of c] byte_lt [of d]
  unfolding be32_cat word_cat_eq
  by (simp add: unat_word_ariths unsigned_push_bit_eq unsigned_ucast_eq take_bit_eq_mod
      push_bit_eq_mult)

section \<open>The header decoder\<close>

lemma byte_char_eq: "char_of (unat (a::byte)) = c \<longleftrightarrow> unat a = of_char c"
proof
  assume "char_of (unat a) = c"
  then have "of_char (char_of (unat a)) = (of_char c :: nat)" by simp
  then show "unat a = of_char c" using byte_lt [of a] by (simp add: of_char_of)
next
  assume "unat a = of_char c"
  then show "char_of (unat a) = c" by simp
qed

lemma unat_byte_eq: "n < 256 \<Longrightarrow> (unat (x::byte) = n) = (x = of_nat n)"
  by (auto simp add: unat_of_nat)

lemma sig_iff:
  assumes "3 \<le> length data"
  shows "string_of_bytes (take 3 data) = dbSig
     \<longleftrightarrow> data ! 0 = 0x53 \<and> data ! 1 = 0x78 \<and> data ! 2 = 0x47"
proof -
  obtain a b c r where d: "data = a # b # c # r"
    using assms by (metis (no_types, opaque_lifting) Suc_le_length_iff numeral_3_eq_3)
  show ?thesis unfolding d
    by (simp add: string_of_bytes_def dbSig_def byte_char_eq unat_byte_eq)
qed

text \<open>
  Claim C4. \<open>parseHeader\<close> succeeds exactly when the slice has at least 40 bytes, starts
  with the bytes \<open>S\<close>, \<open>x\<close>, \<open>G\<close>, and the decoded byteIndexLen, mainIndexLen,
  rangeBlocks, dbItems and idLen are non-zero with idLen at most 4. On success every
  field of the header is the big-endian number read at its byte position: one byte at
  3, four at 4..7, one at 8, 9 and 10, two at 11..12 and 13..14, four at 15..18, one at
  19, two at 20..21 and 22..23, four at 24..27 and 28..31, two at 32..33, four at
  34..37 and two at 38..39.
\<close>

theorem parseHeader_spec:
  "((\<exists>h. parseHeader data = Some h) \<longleftrightarrow>
      40 \<le> length data \<and> data ! 0 = 0x53 \<and> data ! 1 = 0x78 \<and> data ! 2 = 0x47
      \<and> data ! 10 \<noteq> 0 \<and> be16 (data ! 11) (data ! 12) \<noteq> 0
      \<and> be16 (data ! 13) (data ! 14) \<noteq> 0
      \<and> be32 (data ! 15) (data ! 16) (data ! 17) (data ! 18) \<noteq> 0
      \<and> data ! 19 \<noteq> 0 \<and> data ! 19 \<le> 4)
   \<and> (\<forall>h. parseHeader data = Some h \<longrightarrow>
        version h = data ! 3
      \<and> unat (timestamp h) = 16777216 * unat (data ! 4) + 65536 * unat (data ! 5)
            + 256 * unat (data ! 6) + unat (data ! 7)
      \<and> dbType h = data ! 8 \<and> charset h = data ! 9 \<and> byteIndexLen h = data ! 10
      \<and> unat (mainIndexLen h) = 256 * unat (data ! 11) + unat (data ! 12)
      \<and> unat (rangeBlocks h) = 256 * unat (data ! 13) + unat (data ! 14)
      \<and> unat (dbItems h) = 16777216 * unat (data ! 15) + 65536 * unat (data ! 16)
            + 256 * unat (data ! 17) + unat (data ! 18)
      \<and> idLen h = data ! 19
      \<and> unat (maxRegion h) = 256 * unat (data ! 20) + unat (data ! 21)
      \<and> unat (maxCity h) = 256 * unat (data ! 22) + unat (data ! 23)
      \<and> unat (regionSize h) = 16777216 * unat (data ! 24) + 65536 * unat (data ! 25)
            + 256 * unat (data ! 26) + unat (data ! 27)
      \<and> unat (citySize h) = 16777216 * unat (data ! 28) + 65536 * unat (data ! 29)
            + 256 * unat (data ! 30) + unat (data ! 31)
      \<and> unat (maxCountry h) = 256 * unat (data ! 32) + unat (data ! 33)
      \<and> unat (countrySize h) = 16777216 * unat (data ! 34) + 65536 * unat (data ! 35)
            + 256 * unat (data ! 36) + unat (data ! 37)
      \<and> unat (packSize h) = 256 * unat (data ! 38) + unat (data ! 39))"
proof (cases "40 \<le> length data")
  case False
  then show ?thesis by (simp add: parseHeader_def dbHeaderLen_def)
next
  case True
  then have s: "string_of_bytes (take 3 data) = dbSig
     \<longleftrightarrow> data ! 0 = 0x53 \<and> data ! 1 = 0x78 \<and> data ! 2 = 0x47"
    by (intro sig_iff) simp
  show ?thesis
    using True unfolding parseHeader_def Let_def s dbHeaderLen_def
    by (auto simp add: unat_be16 unat_be32 not_less)
qed

theorem parseHeader_spec_witness:
  "\<exists>h. parseHeader sample_header = Some h \<and> unat (timestamp h) = 1593835521
      \<and> unat (packSize h) = 11 \<and> unat (maxCity h) = 16 \<and> idLen h = 1"
proof -
  have "\<exists>h. parseHeader sample_header = Some h"
    using parseHeader_spec [of sample_header]
    by (simp add: sample_header_def be16_def be32_def)
  then obtain h where h: "parseHeader sample_header = Some h" ..
  with parseHeader_spec [of sample_header] show ?thesis
    by (simp add: sample_header_def)
qed

section \<open>The sample engines are the ones New builds\<close>

lemma New_sample_mem: "New sample_db 1 = Inr sample_mem"
  by code_simp

lemma New_sample_file: "New sample_db 0 = Inr sample_file"
  by code_simp

lemma New_sample_country: "New sample_country_db 1 = Inr sample_country"
  by code_simp

section \<open>Reserved and out-of-table first octets\<close>

lemma unat_ucast_byte: "unat (ucast (a::byte) :: u32) = unat a"
  using byte_lt [of a] by (simp add: unsigned_ucast_eq take_bit_eq_mod)

lemma ucast_byte_eq: "((ucast (a::byte) :: u32) = ucast (b::byte)) = (a = b)"
  by (simp add: word_unat_eq_iff unat_ucast_byte)

lemma ucast_byte_le: "((ucast (a::byte) :: u32) \<le> ucast (b::byte)) = (a \<le> b)"
  by (simp add: word_le_nat_alt unat_ucast_byte)

lemma ucast_byte_num:
  "((ucast (a::byte) :: u32) = 0) = (a = 0)"
  "((ucast (a::byte) :: u32) = 10) = (a = 10)"
  "((ucast (a::byte) :: u32) = 127) = (a = 127)"
  using ucast_byte_eq [of a 0] ucast_byte_eq [of a 10] ucast_byte_eq [of a 127] by simp_all

lemma getNum_reserved:
  assumes "ParseIP4 lib ip = Some w"
    and "firstOctet w = 0 \<or> firstOctet w = 10 \<or> firstOctet w = 127
         \<or> firstOctet w \<ge> byteIndexLen (header s)"
  shows "getNum lib s ip = Inl ErrReservedRange"
  using assms
  by (auto simp add: getNum_def be_bytes_def Let_def firstOctet_def ucast_byte_num
      ucast_byte_le)

text \<open>
  Claim C2. For an IPv4 address whose first octet is 0, 10 or 127, or is at least
  byteIndexLen, every public query returns its not-found value and no error:
  GetCountryID the id 0, GetCountry the empty string, GetCity and GetCityFull the nil
  LocationInfo, and Get the nil LocationInfo of GetCityFull on a city database and the
  empty string of GetCountry on a country database.
\<close>

theorem reserved_not_found:
  assumes "ParseIP4 lib ip = Some w"
    and "firstOctet w = 0 \<or> firstOctet w = 10 \<or> firstOctet w = 127
         \<or> firstOctet w \<ge> byteIndexLen (header s)"
  shows "GetCountryID lib s ip = Inr 0 \<and> GetCountry lib s ip = Inr []
       \<and> GetCity lib s ip = Inr None \<and> GetCityFull lib s ip = Inr None
       \<and> Get lib s ip = Inr (if maxCity (header s) > 0 then GotLocation None else GotISO [])"
  using getNum_reserved [OF assms]
  by (simp add: GetCountryID_def GetCountry_def GetCity_def GetCityFull_def Get_def)

theorem reserved_not_found_witness:
  "ParseIP4 sample_lib ''10.0.0.1'' = Some 0x0A000001
   \<and> firstOctet 0x0A000001 = 10
   \<and> GetCountryID sample_lib sample_mem ''10.0.0.1'' = Inr 0
   \<and> GetCountry sample_lib sample_mem ''10.0.0.1'' = Inr []
   \<and> GetCity sample_lib sample_mem ''10.0.0.1'' = Inr None
   \<and> GetCityFull sample_lib sample_mem ''10.0.0.1'' = Inr None
   \<and> Get sample_lib sample_mem ''10.0.0.1'' = Inr (GotLocation None)"
proof -
  have p: "ParseIP4 sample_lib ''10.0.0.1'' = Some 0x0A000001"
    by (simp add: sample_lib_def)
  have o: "firstOctet 0x0A000001 = 10"
    by (simp add: firstOctet_def)
  have m: "maxCity (header sample_mem) > 0"
    by (simp add: sample_mem_def sample_city_header_def)
  show ?thesis
    using reserved_not_found [of sample_lib "''10.0.0.1''" "0x0A000001" sample_mem] p o m
    by simp
qed

section \<open>City queries on a country database\<close>

text \<open>
  Claim C10. On a country database (maxCity = 0 in the header) GetCity and GetCityFull
  return a nil LocationInfo and a nil error for every input string, valid address or
  not: the test of maxCity comes before the address is parsed.
\<close>

theorem country_db_city_queries:
  assumes "maxCity (header s) = 0"
  shows "GetCity lib s ip = Inr None \<and> GetCityFull lib s ip = Inr None"
  using assms by (simp add: GetCity_def GetCityFull_def)

theorem country_db_city_queries_witness:
  "maxCity (header sample_country) = 0
   \<and> ParseIP4 sample_lib ''not-an-ip'' = None
   \<and> GetCity sample_lib sample_country ''not-an-ip'' = Inr None
   \<and> GetCityFull sample_lib sample_country ''not-an-ip'' = Inr None"
proof -
  have m: "maxCity (header sample_country) = 0"
    by (simp add: sample_country_def)
  have p: "ParseIP4 sample_lib ''not-an-ip'' = None"
    by (simp add: sample_lib_def)
  show ?thesis
    using country_db_city_queries [OF m, of sample_lib "''not-an-ip''"] m p by simp
qed

section \<open>Reading a record in memory mode\<close>

text \<open>
  Claim C9, as stated, fails: in memory mode a read of the cities section of
  \<open>sample_mem\<close> (40 bytes) at the offset 41 returns the error "invalid seek".
\<close>

theorem readData_memory_invalid_seek:
  "memoryMode sample_mem \<and> citiesData sample_mem \<noteq> None
   \<and> readData sample_mem 41 32 2 = ([], Some ErrInvalidSeek)"
  by code_simp

lemma take_clamped: "n < length xs \<Longrightarrow> 0 < k \<Longrightarrow>
   slice xs n (nat (if int n + int k > int (length xs) then int (length xs) else int n + int k))
     = take k (drop n xs)"
  by (auto simp add: slice_def nat_add_distrib)

lemma readData_memory_loaded:
  assumes "memoryMode s" and "dataType \<le> 2"
    and "dataType < length (packFormats s)" and "packFormats s ! dataType \<noteq> []"
    and "maxSize \<noteq> 0"
    and "(if dataType = 1 then regionsData s else citiesData s) = Some section"
  shows "readData s seek maxSize dataType =
     (if unat seek > length section then ([], Some ErrInvalidSeek)
      else if unat seek = length section then ([], None)
      else unpack (packFormats s ! dataType)
             (take (unat maxSize) (drop (unat seek) section)))"
proof -
  have us: "uint seek = int (unat seek)" by (rule uint_nat)
  have um: "uint maxSize = int (unat maxSize)" by (rule uint_nat)
  have k: "0 < unat maxSize" using assms(5) by (simp add: unat_gt_0)
  have pre: "readData s seek maxSize dataType =
     (if uint seek > int (length section) then ([], Some ErrInvalidSeek)
      else if uint seek \<ge> (if uint seek + uint maxSize > int (length section)
                             then int (length section) else uint seek + uint maxSize)
      then ([], None)
      else unpack (packFormats s ! dataType)
             (slice section (nat (uint seek))
                (nat (if uint seek + uint maxSize > int (length section)
                      then int (length section) else uint seek + uint maxSize))))"
    using assms by (simp add: readData_def Let_def)
  consider "unat seek > length section" | "unat seek = length section"
    | "unat seek < length section" by linarith
  then show ?thesis
  proof cases
    case 1
    then have "int (length section) < uint seek" by (simp only: us of_nat_less_iff)
    then show ?thesis using 1 unfolding pre by simp
  next
    case 2
    then have "int (length section) = uint seek" by (simp only: us)
    moreover have "0 < uint maxSize" using k by (simp only: um of_nat_0_less_iff)
    ultimately show ?thesis using 2 unfolding pre by simp
  next
    case 3
    have sl: "slice section (unat seek)
            (nat (if int (unat seek) + int (unat maxSize) > int (length section)
                  then int (length section) else int (unat seek) + int (unat maxSize)))
          = take (unat maxSize) (drop (unat seek) section)"
      using 3 k by (rule take_clamped)
    have lt: "uint seek < int (length section)" using 3 by (simp only: us of_nat_less_iff)
    have pos: "0 < uint maxSize" using k by (simp only: um of_nat_0_less_iff)
    have c1: "\<not> uint seek > int (length section)" using lt by simp
    have c2: "\<not> uint seek \<ge> (if uint seek + uint maxSize > int (length section)
                             then int (length section) else uint seek + uint maxSize)"
      using lt pos by simp
    have n: "nat (uint seek) = unat seek" by simp
    show ?thesis
      unfolding pre using 3 sl [folded us um] c1 c2 lt by simp
  qed
qed

text \<open>
  Claim C9, amended. In memory mode, for every data type, offset and maximal length,
  the read returns an error of its own only when the offset is greater than the length
  of the section: the error "invalid seek". When the format of the data type is absent,
  the maximal length is 0 or the section is not loaded, and when the offset equals the
  length of the section, it returns the empty map and no error. In every other case it
  returns what \<open>unpack\<close> makes of the bytes from the offset on, at most \<open>maxSize\<close> of them
  and not beyond the end of the section. (A data type above 2 names no section; with a
  format present the read returns an internal error.)
\<close>

theorem readData_memory:
  assumes "memoryMode s"
  shows "readData s seek maxSize dataType =
     (if dataType \<ge> length (packFormats s) \<or> packFormats s ! dataType = [] \<or> maxSize = 0
      then ([], None)
      else if dataType > 2 then ([], Some ErrInternalDataType)
      else
        (case (if dataType = 1 then regionsData s else citiesData s) of
           None \<Rightarrow> ([], None)
         | Some section \<Rightarrow>
             if unat seek > length section then ([], Some ErrInvalidSeek)
             else if unat seek = length section then ([], None)
             else unpack (packFormats s ! dataType)
                    (take (unat maxSize) (drop (unat seek) section))))"
proof (cases "dataType \<ge> length (packFormats s) \<or> packFormats s ! dataType = [] \<or> maxSize = 0")
  case True
  then show ?thesis by (auto simp add: readData_def)
next
  case f: False
  show ?thesis
  proof (cases "dataType > 2")
    case True
    then show ?thesis using f assms by (simp add: readData_def)
  next
    case d: False
    show ?thesis
    proof (cases "if dataType = 1 then regionsData s else citiesData s")
      case None
      then show ?thesis using f d assms by (simp add: readData_def)
    next
      case (Some sec)
      have "readData s seek maxSize dataType =
         (if unat seek > length sec then ([], Some ErrInvalidSeek)
          else if unat seek = length sec then ([], None)
          else unpack (packFormats s ! dataType)
                 (take (unat maxSize) (drop (unat seek) sec)))"
        using assms f d Some by (intro readData_memory_loaded) simp_all
      then show ?thesis using f d Some by simp
    qed
  qed
qed

theorem readData_memory_witness:
  "memoryMode sample_mem
   \<and> readData sample_mem 24 32 2 =
     ([(''region_seek'', VUint32 0), (''country_id'', VUint8 255), (''id'', VUint32 77),
       (''name_en'', VString ''Nowhere'')], None)
   \<and> readData sample_mem 40 32 2 = ([], None)
   \<and> readData sample_mem 41 32 2 = ([], Some ErrInvalidSeek)
   \<and> readData sample_mem 41 0 2 = ([], None)
   \<and> readData sample_mem 41 32 3 = ([], None)"
proof -
  have m: "memoryMode sample_mem" by (simp add: sample_mem_def)
  have p: "length (packFormats sample_mem) = 3" "packFormats sample_mem ! 2 \<noteq> []"
    by (simp_all add: sample_mem_def)
  have c: "citiesData sample_mem = Some (the (citiesData sample_mem))"
    by (simp add: sample_mem_def)
  have l: "length (the (citiesData sample_mem)) = 40" by (simp add: sample_mem_def)
  have u: "unpack (packFormats sample_mem ! 2) (take 32 (drop 24 (the (citiesData sample_mem))))
     = ([(''region_seek'', VUint32 0), (''country_id'', VUint8 255), (''id'', VUint32 77),
       (''name_en'', VString ''Nowhere'')], None)"
    by code_simp
  have 1: "readData sample_mem 24 32 2 =
     ([(''region_seek'', VUint32 0), (''country_id'', VUint8 255), (''id'', VUint32 77),
       (''name_en'', VString ''Nowhere'')], None)"
    using readData_memory [OF m, of 24 32 2] p l u by (subst (asm) c) simp
  have 2: "readData sample_mem 40 32 2 = ([], None)"
    using readData_memory [OF m, of 40 32 2] p l by (subst (asm) c) simp
  have 3: "readData sample_mem 41 32 2 = ([], Some ErrInvalidSeek)"
    using readData_memory [OF m, of 41 32 2] p l by (subst (asm) c) simp
  have 4: "readData sample_mem 41 0 2 = ([], None)"
    using readData_memory [OF m, of 41 0 2] by simp
  have 5: "readData sample_mem 41 32 3 = ([], None)"
    using readData_memory [OF m, of 41 32 3] p by simp
  show ?thesis using m 1 2 3 4 5 by simp
qed

section \<open>Truncated records\<close>

lemma splitN2_colon:
  "sep \<notin> set typeFormat \<Longrightarrow> splitN2 sep (typeFormat @ sep # name) = [typeFormat, name]"
  by (induction typeFormat) (auto simp add: splitN2_def)

lemma unpack_eq_parts:
  "data \<noteq> [] \<Longrightarrow> format \<noteq> [] \<Longrightarrow>
   unpack format data = unpack_parts (split_on CHR ''/'' format) data 0 []"
  by (simp add: unpack_def)

lemma decode_field_short:
  assumes "fixedWidth (hd typeFormat) = Some w" and "length data < offset + w"
  shows "decode_field typeFormat data offset = Inl ErrUnexpectedEOF"
  using assms
  by (auto simp add: fixedWidth_def decode_field_def fixed_def Let_def split: if_splits)

lemma unpack_parts_exhausted:
  "offset \<ge> length data \<Longrightarrow> unpack_parts parts data offset result = (result, None)"
  by (cases parts) simp_all

lemma unpack_parts_short:
  assumes "typeFormat \<noteq> []" and "CHR '':'' \<notin> set typeFormat"
    and "fixedWidth (hd typeFormat) = Some w"
    and "offset < length data" and "length data < offset + w"
  shows "unpack_parts ((typeFormat @ CHR '':'' # name) # parts) data offset result
       = (result, Some ErrUnexpectedEOF)"
  using assms by (simp add: splitN2_colon decode_field_short)

lemma unpack_parts_c_short:
  assumes "typeFormat \<noteq> []" and "hd typeFormat = CHR ''c''" and "CHR '':'' \<notin> set typeFormat"
    and "Atoi (tl typeFormat) = (n, True)" and "0 < n"
    and "int offset + n \<le> 9223372036854775807"
    and "offset < length data" and "length data < offset + nat n"
  shows "unpack_parts ((typeFormat @ CHR '':'' # name) # parts) data offset result
       = (AList.update name
            (VString (trimRight (string_of_bytes (drop offset data)) [NUL, CHR '' ''])) result,
          None)"
proof -
  have d: "decode_field typeFormat data offset
      = Inr (VString (trimRight (string_of_bytes (drop offset data)) [NUL, CHR '' '']),
             length data - offset)"
    using assms by (simp add: decode_field_def Let_def slice_def)
  show ?thesis
    using assms(1,3,7) by (simp add: splitN2_colon d unpack_parts_exhausted)
qed

lemma unpack_parts_b_unterminated:
  assumes "typeFormat \<noteq> []" and "hd typeFormat = CHR ''b''" and "CHR '':'' \<notin> set typeFormat"
    and "offset < length data" and "0 \<notin> set (drop offset data)"
  shows "unpack_parts ((typeFormat @ CHR '':'' # name) # parts) data offset result
       = (AList.update name (VString (string_of_bytes (drop offset data))) result, None)"
proof -
  have t: "takeWhile (\<lambda>b. b \<noteq> 0) (drop offset data) = drop offset data"
    using assms(5) by (auto simp add: takeWhile_eq_all_conv)
  have d: "decode_field typeFormat data offset
      = Inr (VString (string_of_bytes (drop offset data)), length data - offset)"
    using assms(2,4) by (simp add: decode_field_def Let_def t)
  show ?thesis
    using assms(1,3,4) by (simp add: splitN2_colon d unpack_parts_exhausted)
qed

lemma readData_file:
  assumes "\<not> memoryMode s" and "osFile s = Some fl" and "dataType \<le> 2"
    and "dataType < length (packFormats s)" and "packFormats s ! dataType \<noteq> []"
    and "maxSize \<noteq> 0"
    and "readAt fl (unat maxSize)
           ((if dataType = 1 then regionsBegin s else citiesBegin s) + uint seek) \<noteq> []"
  shows "readData s seek maxSize dataType =
     unpack (packFormats s ! dataType)
       (readAt fl (unat maxSize)
          ((if dataType = 1 then regionsBegin s else citiesBegin s) + uint seek))"
  using assms by (simp add: readData_def Let_def)

lemma parseCity_city_error:
  assumes "length (packFormats s) > 2" and "packFormats s ! 2 \<noteq> []"
    and "snd (readData s seek (maxCity (header s)) 2) = Some e"
  shows "parseCity lib s seek full = Inl e"
  using assms by (cases "readData s seek (maxCity (header s)) 2") (simp add: parseCity_def)

lemma readRegion_error: "readRegion lib s full rs = Inl e \<Longrightarrow> e = Panic"
  by (auto simp add: readRegion_def Let_def split: if_splits prod.splits option.splits)

lemma readCountry_error: "readCountry lib s cs cid = Inl e \<Longrightarrow> e = Panic"
  by (auto simp add: readCountry_def split: if_splits prod.splits)

lemma parseCity_error_origin:
  assumes "parseCity lib s seek full = Inl e"
  shows "e = ErrMissingCityFormat \<or> e = ErrCityEmpty \<or> e = Panic
       \<or> snd (readData s seek (maxCity (header s)) 2) = Some e"
proof (cases "readData s seek (maxCity (header s)) 2")
  case (Pair cityData err)
  show ?thesis
    using assms Pair readRegion_error readCountry_error
    by (auto simp add: parseCity_def Let_def
        split: if_splits option.splits sum.splits prod.splits)
qed

text \<open>
  Claim C1, as stated, fails: on the format \<open>T:a/I:id\<close> and two bytes of data the
  four-byte field does not fit, and \<open>unpack\<close> returns the field decoded so far together
  with an error. The block \<open>1.5.0.0\<close> of the sample database points two bytes before the
  end of the cities section; the three-byte first field of the city record does not
  fit, and the error reaches the caller of GetCity.
\<close>

theorem truncation_escapes:
  "unpack ''T:a/I:id'' [1, 2] = ([(''a'', VUint8 1)], Some ErrUnexpectedEOF)
   \<and> ParseIP4 sample_lib ''1.5.0.0'' = Some 0x01050000
   \<and> GetCity sample_lib sample_mem ''1.5.0.0'' = Inl ErrUnexpectedEOF"
  by code_simp

text \<open>
  Claim C1, amended. For every format string and every byte slice that are not empty,
  \<open>unpack\<close> runs its loop over the parts of the format from offset 0. In that loop:
  when no byte is left at the start of a field, the fields decoded so far are returned
  and no error; a \<open>c\<close> field with fewer bytes left than its length and a \<open>b\<close> field with
  no terminator take the bytes that are left, and the map is returned with no error;
  a fixed-width field that starts inside the input and does not fit returns the fields
  decoded so far together with an unexpected-end-of-data error. readData returns the
  result of \<open>unpack\<close> on the bytes it has read, map and error, in memory mode and in file
  mode. parseCity returns the error of the read of the city record; every error that
  parseCity returns is that one, the missing city format, the empty city record or a
  panic, so an error of the region read or of the country read never leaves parseCity.
  GetCity, GetCityFull and Get return the error of parseCity, and GetCountryID and
  GetCountry the error of the read of the city record.
\<close>

theorem unpack_truncation:
  "(data \<noteq> [] \<and> format \<noteq> []
      \<longrightarrow> unpack format data = unpack_parts (split_on CHR ''/'' format) data 0 [])
   \<and> (offset \<ge> length data \<longrightarrow> unpack_parts parts data offset result = (result, None))
   \<and> (typeFormat \<noteq> [] \<and> hd typeFormat = CHR ''c'' \<and> CHR '':'' \<notin> set typeFormat
        \<and> Atoi (tl typeFormat) = (n, True) \<and> 0 < n \<and> int offset + n \<le> 9223372036854775807
        \<and> offset < length data \<and> length data < offset + nat n
      \<longrightarrow> unpack_parts ((typeFormat @ CHR '':'' # name) # parts) data offset result
            = (AList.update name
                 (VString (trimRight (string_of_bytes (drop offset data)) [NUL, CHR '' '']))
                 result, None))
   \<and> (typeFormat \<noteq> [] \<and> hd typeFormat = CHR ''b'' \<and> CHR '':'' \<notin> set typeFormat
        \<and> offset < length data \<and> 0 \<notin> set (drop offset data)
      \<longrightarrow> unpack_parts ((typeFormat @ CHR '':'' # name) # parts) data offset result
            = (AList.update name (VString (string_of_bytes (drop offset data))) result, None))
   \<and> (typeFormat \<noteq> [] \<and> CHR '':'' \<notin> set typeFormat \<and> fixedWidth (hd typeFormat) = Some w
        \<and> offset < length data \<and> length data < offset + w
      \<longrightarrow> unpack_parts ((typeFormat @ CHR '':'' # name) # parts) data offset result
            = (result, Some ErrUnexpectedEOF))
   \<and> (memoryMode s \<and> dataType \<le> 2 \<and> dataType < length (packFormats s)
        \<and> packFormats s ! dataType \<noteq> [] \<and> maxSize \<noteq> 0
        \<and> (if dataType = 1 then regionsData s else citiesData s) = Some sec
        \<and> unat seek < length sec
      \<longrightarrow> readData s seek maxSize dataType
            = unpack (packFormats s ! dataType) (take (unat maxSize) (drop (unat seek) sec)))
   \<and> (\<not> memoryMode s \<and> osFile s = Some fl \<and> dataType \<le> 2
        \<and> dataType < length (packFormats s) \<and> packFormats s ! dataType \<noteq> []
        \<and> maxSize \<noteq> 0
        \<and> readAt fl (unat maxSize)
              ((if dataType = 1 then regionsBegin s else citiesBegin s) + uint seek) \<noteq> []
      \<longrightarrow> readData s seek maxSize dataType
            = unpack (packFormats s ! dataType)
                (readAt fl (unat maxSize)
                   ((if dataType = 1 then regionsBegin s else citiesBegin s) + uint seek)))
   \<and> (length (packFormats s) > 2 \<and> packFormats s ! 2 \<noteq> []
        \<and> snd (readData s seek (maxCity (header s)) 2) = Some e
      \<longrightarrow> parseCity lib s seek full = Inl e)
   \<and> (parseCity lib s seek full = Inl e
      \<longrightarrow> e = ErrMissingCityFormat \<or> e = ErrCityEmpty \<or> e = Panic
          \<or> snd (readData s seek (maxCity (header s)) 2) = Some e)
   \<and> (maxCity (header s) \<noteq> 0 \<and> getNum lib s ip = Inr seek \<and> seek \<noteq> 0
      \<longrightarrow> (parseCity lib s seek False = Inl e \<longrightarrow> GetCity lib s ip = Inl e)
        \<and> (parseCity lib s seek True = Inl e
            \<longrightarrow> GetCityFull lib s ip = Inl e \<and> Get lib s ip = Inl e)
        \<and> (snd (readData s seek (maxCity (header s)) 2) = Some e
            \<longrightarrow> GetCountryID lib s ip = Inl e \<and> GetCountry lib s ip = Inl e))"
  (is "?C1 \<and> ?C2 \<and> ?C3 \<and> ?C4 \<and> ?C5 \<and> ?C6 \<and> ?C7 \<and> ?C8 \<and> ?C9 \<and> ?C10")
proof -
  have c1: ?C1 using unpack_eq_parts by blast
  have c2: ?C2 using unpack_parts_exhausted by blast
  have c3: ?C3 using unpack_parts_c_short [of typeFormat n offset data name parts result] by blast
  have c4: ?C4 using unpack_parts_b_unterminated [of typeFormat offset data name parts result]
    by blast
  have c5: ?C5 using unpack_parts_short [of typeFormat w offset data name parts result] by blast
  have c6: ?C6 using readData_memory_loaded [of s dataType maxSize sec seek] by auto
  have c7: ?C7 using readData_file [of s fl dataType maxSize seek] by blast
  have c8: ?C8 using parseCity_city_error [of s seek e lib full] by blast
  have c9: ?C9 using parseCity_error_origin [of lib s seek full e] by blast
  have c10: ?C10
  proof (cases "readData s seek (maxCity (header s)) 2")
    case (Pair cityData err)
    then show ?thesis
      by (simp add: GetCity_def GetCityFull_def Get_def GetCountryID_def GetCountry_def
          word_greater_zero_iff)
  qed
  show ?thesis
    by (intro conjI) (fact c1, fact c2, fact c3, fact c4, fact c5, fact c6, fact c7, fact c8,
      fact c9, fact c10)
qed

theorem unpack_truncation_witness:
  "unpack ''T:a/I:id'' [1, 2] = unpack_parts (split_on CHR ''/'' ''T:a/I:id'') [1, 2] 0 []
   \<and> unpack_parts [''b:x''] [1, 2] 2 [(''a'', VUint8 1)] = ([(''a'', VUint8 1)], None)
   \<and> unpack_parts [''c4:iso''] [1, 65, 66] 1 [] = ([(''iso'', VString ''AB'')], None)
   \<and> unpack_parts [''b:nm''] [1, 65, 66] 1 [] = ([(''nm'', VString ''AB'')], None)
   \<and> unpack_parts [''I:id''] [1, 2] 1 [(''a'', VUint8 1)]
        = ([(''a'', VUint8 1)], Some ErrUnexpectedEOF)
   \<and> readData sample_mem 38 32 2 = ([], Some ErrUnexpectedEOF)
   \<and> readData sample_file 38 32 2 = ([], Some ErrUnexpectedEOF)
   \<and> parseCity sample_lib sample_mem 38 False = Inl ErrUnexpectedEOF
   \<and> parseCity sample_lib sample_mem 38 True = Inl ErrUnexpectedEOF
   \<and> getNum sample_lib sample_mem ''1.5.0.0'' = Inr 38
   \<and> GetCity sample_lib sample_mem ''1.5.0.0'' = Inl ErrUnexpectedEOF
   \<and> GetCityFull sample_lib sample_mem ''1.5.0.0'' = Inl ErrUnexpectedEOF
   \<and> Get sample_lib sample_mem ''1.5.0.0'' = Inl ErrUnexpectedEOF
   \<and> GetCountryID sample_lib sample_mem ''1.5.0.0'' = Inl ErrUnexpectedEOF
   \<and> GetCountry sample_lib sample_mem ''1.5.0.0'' = Inl ErrUnexpectedEOF"
proof -
  have w1: "unpack ''T:a/I:id'' [1, 2]
      = unpack_parts (split_on CHR ''/'' ''T:a/I:id'') [1, 2] 0 []"
    using unpack_truncation [where data = "[1, 2]" and format = "''T:a/I:id''"] by simp
  have w2: "unpack_parts [''b:x''] [1, 2] 2 [(''a'', VUint8 1)] = ([(''a'', VUint8 1)], None)"
    using unpack_truncation [where offset = 2 and data = "[1, 2]" and parts = "[''b:x'']"
        and result = "[(''a'', VUint8 1)]"]
    by simp
  have a4: "Atoi (tl ''c4'') = (4, True)" by code_simp
  have t3: "trimRight (string_of_bytes (drop 1 [1, 65, 66])) [NUL, CHR '' ''] = ''AB''"
    by code_simp
  have w3: "unpack_parts [''c4:iso''] [1, 65, 66] 1 [] = ([(''iso'', VString ''AB'')], None)"
    using unpack_truncation [where typeFormat = "''c4''" and n = 4 and offset = 1
        and data = "[1, 65, 66]" and name = "''iso''" and parts = "[]" and result = "[]"] a4 t3
    by simp
  have t4: "string_of_bytes (drop 1 [1, 65, 66]) = ''AB''" by code_simp
  have w4: "unpack_parts [''b:nm''] [1, 65, 66] 1 [] = ([(''nm'', VString ''AB'')], None)"
    using unpack_truncation [where typeFormat = "''b''" and offset = 1
        and data = "[1, 65, 66]" and name = "''nm''" and parts = "[]" and result = "[]"] t4
    by simp
  have f5: "fixedWidth (hd ''I'') = Some 4" by (simp add: fixedWidth_def)
  have w5: "unpack_parts [''I:id''] [1, 2] 1 [(''a'', VUint8 1)]
      = ([(''a'', VUint8 1)], Some ErrUnexpectedEOF)"
    using unpack_truncation [where typeFormat = "''I''" and w = 4 and offset = 1
        and data = "[1, 2]" and name = "''id''" and parts = "[]"
        and result = "[(''a'', VUint8 1)]"] f5
    by simp
  have p: "memoryMode sample_mem" "length (packFormats sample_mem) = 3"
    "packFormats sample_mem ! 2 \<noteq> []" "maxCity (header sample_mem) = 32"
    "citiesData sample_mem = Some (the (citiesData sample_mem))"
    "length (the (citiesData sample_mem)) = 40"
    by (simp_all add: sample_mem_def sample_city_header_def)
  have u6: "unpack (packFormats sample_mem ! 2)
        (take (unat (32::u16)) (drop (unat (38::u32)) (the (citiesData sample_mem))))
      = ([], Some ErrUnexpectedEOF)"
    by code_simp
  have w6: "readData sample_mem 38 32 2 = ([], Some ErrUnexpectedEOF)"
    using unpack_truncation [where s = sample_mem and dataType = 2 and maxSize = 32
        and sec = "the (citiesData sample_mem)" and seek = 38] p u6
    by simp
  have pf: "\<not> memoryMode sample_file" "osFile sample_file = Some sample_db"
    "length (packFormats sample_file) = 3" "packFormats sample_file ! 2 \<noteq> []"
    by (simp_all add: sample_file_def)
  have r7: "readAt sample_db (unat (32::u16))
        ((if (2::nat) = 1 then regionsBegin sample_file else citiesBegin sample_file)
          + uint (38::u32)) = [101, 0]"
    by code_simp
  have u7: "unpack (packFormats sample_file ! 2) [101, 0] = ([], Some ErrUnexpectedEOF)"
    by code_simp
  have w7: "readData sample_file 38 32 2 = ([], Some ErrUnexpectedEOF)"
    using unpack_truncation [where s = sample_file and fl = sample_db and dataType = 2
        and maxSize = 32 and seek = 38] pf r7 u7
    by simp
  have w8: "parseCity sample_lib sample_mem 38 False = Inl ErrUnexpectedEOF"
    using unpack_truncation [where s = sample_mem and seek = 38 and e = ErrUnexpectedEOF
        and lib = sample_lib and full = False] p w6
    by simp
  have w8': "parseCity sample_lib sample_mem 38 True = Inl ErrUnexpectedEOF"
    using unpack_truncation [where s = sample_mem and seek = 38 and e = ErrUnexpectedEOF
        and lib = sample_lib and full = True] p w6
    by simp
  have g: "getNum sample_lib sample_mem ''1.5.0.0'' = Inr 38" by code_simp
  have w10: "GetCity sample_lib sample_mem ''1.5.0.0'' = Inl ErrUnexpectedEOF
      \<and> GetCityFull sample_lib sample_mem ''1.5.0.0'' = Inl ErrUnexpectedEOF
      \<and> Get sample_lib sample_mem ''1.5.0.0'' = Inl ErrUnexpectedEOF
      \<and> GetCountryID sample_lib sample_mem ''1.5.0.0'' = Inl ErrUnexpectedEOF
      \<and> GetCountry sample_lib sample_mem ''1.5.0.0'' = Inl ErrUnexpectedEOF"
    using unpack_truncation [where s = sample_mem and seek = 38 and e = ErrUnexpectedEOF
        and lib = sample_lib and ip = "''1.5.0.0''"] p w6 w8 w8' g
    by simp
  show ?thesis using w1 w2 w3 w4 w5 w6 w7 w8 w8' g w10 by simp
qed

end
